theory Spec2Isabelle
  imports Main "HOL-Library.Word"
begin

section \<open>The HgiGL command ops and the colour-correction pass, over a model of the GL context\<close>

text \<open>
  The ops of \<^verbatim>\<open>pxr/imaging/hgiGL/ops.cpp\<close> are closures that issue OpenGL calls against
  the one native context. Each closure is embedded as a function from the context before
  its invocation to the context after it. The context holds the binding state of the
  driver, the live framebuffer objects, and a trace of everything the closure did that is
  visible from outside: native calls, diagnostics of the Tf library, and the polling of
  pending GL errors.
\<close>

subsection \<open>Values\<close>

text \<open>
  \<^verbatim>\<open>uint32_t\<close> values on which the code computes are 32-bit words. Names of GL
  objects (\<^verbatim>\<open>GLuint\<close> identifiers handed out by the driver) are never computed on
  and are natural numbers; name 0 is the default object. A \<^verbatim>\<open>GfVec4i\<close> is a
  quadruple of integers, a float is carried as its bit pattern.
\<close>

type_synonym uint32 = "32 word"
type_synonym GLname = nat
type_synonym GfVec4i = "int \<times> int \<times> int \<times> int"
type_synonym GfVec3i = "int \<times> int \<times> int"
type_synonym GfVec4f = "uint32 \<times> uint32 \<times> uint32 \<times> uint32"
type_synonym GLenum = nat

definition GL_LESS :: GLenum where "GL_LESS = 0x0201"
definition GL_ALWAYS :: GLenum where "GL_ALWAYS = 0x0207"

datatype gl_framebuffer_target = GL_FRAMEBUFFER | GL_READ_FRAMEBUFFER | GL_DRAW_FRAMEBUFFER
datatype gl_buffer_target = GL_ARRAY_BUFFER | GL_ELEMENT_ARRAY_BUFFER
datatype gl_texture_target = GL_TEXTURE_2D | GL_TEXTURE_3D
datatype gl_cap = GL_BLEND | GL_SAMPLE_ALPHA_TO_COVERAGE | GL_TEXTURE_3D_ENABLE
datatype gl_barrier = GL_ALL_BARRIER_BITS | GL_BUFFER_UPDATE_BARRIER_BIT
datatype gl_attachment = GL_NONE | GL_COLOR_ATTACHMENT nat | GL_DEPTH_ATTACHMENT
datatype gl_blit_mask = GL_DEPTH_BUFFER_BIT | GL_COLOR_BUFFER_BIT
datatype gl_clear_buffer = GL_COLOR | GL_DEPTH
abbreviation GL_COLOR_ATTACHMENT0 :: gl_attachment where
  "GL_COLOR_ATTACHMENT0 \<equiv> GL_COLOR_ATTACHMENT 0"

datatype gl_pname =
    GL_READ_FRAMEBUFFER_BINDING | GL_DRAW_FRAMEBUFFER_BINDING | GL_DEPTH_WRITEMASK
  | GL_STENCIL_WRITEMASK | GL_DEPTH_FUNC | GL_VIEWPORT | Cap gl_cap

text \<open>Enumerations of Hgi (\<^verbatim>\<open>hgi/enums.h\<close>, \<^verbatim>\<open>hgi/types.h\<close>). A usage bit mask is the
  list of the bits that are set; \<^verbatim>\<open>usage & bit\<close> is membership.\<close>

datatype HgiTextureUsageBits =
    HgiTextureUsageBitsColorTarget | HgiTextureUsageBitsDepthTarget
  | HgiTextureUsageBitsShaderRead | HgiTextureUsageBitsShaderWrite
datatype HgiBufferUsage =
    HgiBufferUsageUniform | HgiBufferUsageIndex32 | HgiBufferUsageVertex | HgiBufferUsageStorage
datatype HgiFormat = HgiFormatFloat32 | HgiFormatOther nat
datatype HgiAttachmentLoadOp =
    HgiAttachmentLoadOpDontCare | HgiAttachmentLoadOpClear | HgiAttachmentLoadOpLoad
type_synonym HgiBlendFactor = nat
type_synonym HgiBlendOp = nat

text \<open>The pixel transfer format handed to the read-back: the result of
  \<^verbatim>\<open>HgiGLConversions::GetFormat\<close> on the texture's format, the depth format, or the
  zero the locals are initialised with.\<close>

datatype gl_pixel_format = GetFormat HgiFormat | GL_DEPTH_COMPONENT_FLOAT | GL_FORMAT_ZERO

subsection \<open>Native calls, diagnostics and the trace\<close>

datatype gl_call =
    GlPushDebugGroup string
  | GlPopDebugGroup
  | GlMemoryBarrier gl_barrier
  | GlGetTextureSubImage GLname uint32 GfVec3i GfVec3i gl_pixel_format uint32 "nat option"
  | GlNamedBufferSubData GLname nat nat nat
  | GlCreateFramebuffers GLname
  | GlDeleteFramebuffers GLname
  | GlIsTexture GLname
  | GlNamedFramebufferDrawBuffers GLname "gl_attachment list"
  | GlNamedFramebufferTexture GLname gl_attachment GLname
  | GlCheckNamedFramebufferStatus GLname gl_framebuffer_target
  | GlGetIntegerv gl_pname
  | GlGetBooleanv gl_pname
  | GlBindFramebuffer gl_framebuffer_target GLname
  | GlBlitFramebuffer GfVec4i GfVec4i gl_blit_mask
  | GlViewport int int int int
  | GlScissor int int int int
  | GlBindVertexBuffer uint32 GLname uint32 uint32
  | GlBindBuffer gl_buffer_target GLname
  | GlDrawElementsInstancedBaseVertex uint32 uint32 uint32 uint32
  | GlClearBufferfv gl_clear_buffer uint32 GfVec4f
  | GlBlendFuncSeparatei uint32 HgiBlendFactor HgiBlendFactor HgiBlendFactor HgiBlendFactor
  | GlBlendEquationSeparatei uint32 HgiBlendOp HgiBlendOp
  | GlEnable gl_cap
  | GlDisable gl_cap
  | GlUseProgram GLname
  | GlActiveTexture nat
  | GlBindTexture gl_texture_target GLname
  | GlUniform1i int int
  | GlVertexAttribPointer int nat nat nat
  | GlEnableVertexAttribArray int
  | GlDisableVertexAttribArray int
  | GlDepthMask bool
  | GlStencilMask uint32
  | GlDepthFunc GLenum
  | GlDrawArrays nat nat

text \<open>
  What an invocation leaves in the trace: a native call; a failed \<^verbatim>\<open>TF_VERIFY\<close>
  (logged, execution goes on); a \<^verbatim>\<open>TF_WARN\<close>; a \<^verbatim>\<open>TF_CODING_ERROR\<close>; and
  \<^verbatim>\<open>HGIGL_POST_PENDING_GL_ERRORS()\<close> (\<^verbatim>\<open>GLF_POST_PENDING_GL_ERRORS()\<close> in the task),
  the macro that polls the pending errors of the native API and posts them to the
  diagnostic sink. The last kind of event is no output of the program: it marks a read of a
  vector at an index past its end, so that such a read shows in the trace.
\<close>

datatype event =
    Native gl_call
  | VerifyFailed string
  | Warn string
  | CodingError string
  | PostPendingGLErrors
  | OutOfRangeRead nat

subsection \<open>The GL context\<close>

text \<open>The global binding state of the driver, one field per piece of state the two source
  files touch.\<close>

record gl_bindings =
  read_framebuffer :: GLname
  draw_framebuffer :: GLname
  viewport :: GfVec4i
  scissor :: GfVec4i
  blend :: bool
  sample_alpha_to_coverage :: bool
  texture_3d :: bool
  depth_writemask :: bool
  depth_func :: GLenum
  stencil_writemask :: uint32
  stencil_back_writemask :: uint32
  active_texture :: nat
  texture_binding_2d :: "nat \<Rightarrow> GLname"
  texture_binding_3d :: "nat \<Rightarrow> GLname"
  current_program :: GLname
  array_buffer :: GLname
  element_array_buffer :: GLname
  vertex_buffers :: "uint32 \<Rightarrow> (GLname \<times> uint32 \<times> uint32) option"
  vertex_attrib_enabled :: "int \<Rightarrow> bool"
  blend_func :: "uint32 \<Rightarrow> (HgiBlendFactor \<times> HgiBlendFactor \<times> HgiBlendFactor \<times> HgiBlendFactor) option"
  blend_equation :: "uint32 \<Rightarrow> (HgiBlendOp \<times> HgiBlendOp) option"

text \<open>
  The context: the binding state, the names of the live framebuffer objects, the answers
  of the driver the code only feeds into \<^verbatim>\<open>TF_VERIFY\<close> (\<^verbatim>\<open>glIsTexture\<close>, framebuffer
  completeness), whether \<^verbatim>\<open>GL_KHR_debug\<close> is compiled in and present, what the process
  finds in memory behind a vector of \<^verbatim>\<open>uint32_t\<close> when it reads index \<open>i\<close> past the end,
  and the trace.
\<close>

record gl_context =
  bindings :: gl_bindings
  framebuffers :: "GLname list"
  is_texture :: "GLname \<Rightarrow> bool"
  framebuffer_complete :: "GLname \<Rightarrow> bool"
  khr_debug :: bool
  past_the_end :: "nat \<Rightarrow> uint32"
  trace :: "event list"

text \<open>An invocation returns, or stops at a member access through a null pointer; the context
  is the one reached by then. A read of a vector past its end does not stop the compiled
  code: \<^verbatim>\<open>operator[]\<close> checks nothing, the read yields what lies behind the vector, and the
  invocation goes on.\<close>

datatype fault = NullDereference
datatype op_result = Returned gl_context | Faulted fault gl_context

definition emit :: "event \<Rightarrow> gl_context \<Rightarrow> gl_context" where
  "emit e c = c\<lparr>trace := trace c @ [e]\<rparr>"

definition native :: "gl_call \<Rightarrow> gl_context \<Rightarrow> gl_context" where
  "native k c = emit (Native k) c"

text \<open>Modelled from the spec: \<^verbatim>\<open>TF_VERIFY\<close>, \<^verbatim>\<open>TF_WARN\<close> and \<^verbatim>\<open>TF_CODING_ERROR\<close> of
  \<^verbatim>\<open>pxr/base/tf\<close> and the macro \<^verbatim>\<open>HGIGL_POST_PENDING_GL_ERRORS\<close> of
  \<^verbatim>\<open>hgiGL/diagnostic.h\<close> are not among the sources. A failed verification is logged and is
  not fatal; the macro polls the pending native errors and posts them.\<close>

definition TF_VERIFY :: "bool \<Rightarrow> string \<Rightarrow> gl_context \<Rightarrow> gl_context" where
  "TF_VERIFY ok msg c = (if ok then c else emit (VerifyFailed msg) c)"

definition HGIGL_POST_PENDING_GL_ERRORS :: "gl_context \<Rightarrow> gl_context" where
  "HGIGL_POST_PENDING_GL_ERRORS c = emit PostPendingGLErrors c"

definition set_bindings :: "(gl_bindings \<Rightarrow> gl_bindings) \<Rightarrow> gl_context \<Rightarrow> gl_context" where
  "set_bindings f c = c\<lparr>bindings := f (bindings c)\<rparr>"

text \<open>\<^verbatim>\<open>v[i]\<close> on a \<^verbatim>\<open>std::vector<uint32_t>\<close>.\<close>

definition vector_read :: "uint32 list \<Rightarrow> nat \<Rightarrow> gl_context \<Rightarrow> uint32 \<times> gl_context" where
  "vector_read v i c =
     (if i < length v then (v ! i, c) else (past_the_end c i, emit (OutOfRangeRead i) c))"

subsection \<open>The native API\<close>

text \<open>Each entry point logs itself in the trace and has the effect on the context that the
  OpenGL specification gives it. Calls with the \<^verbatim>\<open>Named\<close> prefix address an object by
  name and touch no binding. Arguments that are the same constant at every call site of the
  sources (mip level 0 of an attachment, \<^verbatim>\<open>GL_NEAREST\<close>, \<^verbatim>\<open>GL_TRIANGLES\<close>,
  \<^verbatim>\<open>GL_UNSIGNED_INT\<close>, \<^verbatim>\<open>GL_FLOAT\<close>, \<^verbatim>\<open>GL_FALSE\<close> for "normalized") are left out of
  the logged call.\<close>

definition glPushDebugGroup :: "string \<Rightarrow> gl_context \<Rightarrow> gl_context" where
  "glPushDebugGroup label c = native (GlPushDebugGroup label) c"

definition glPopDebugGroup :: "gl_context \<Rightarrow> gl_context" where
  "glPopDebugGroup c = native GlPopDebugGroup c"

definition glMemoryBarrier :: "gl_barrier \<Rightarrow> gl_context \<Rightarrow> gl_context" where
  "glMemoryBarrier b c = native (GlMemoryBarrier b) c"

text \<open>The size of the destination is a \<^verbatim>\<open>GLsizei\<close>, 32 bits wide.\<close>

definition glGetTextureSubImage ::
  "GLname \<Rightarrow> uint32 \<Rightarrow> GfVec3i \<Rightarrow> GfVec3i \<Rightarrow> gl_pixel_format \<Rightarrow> uint32 \<Rightarrow> nat option \<Rightarrow>
   gl_context \<Rightarrow> gl_context" where
  "glGetTextureSubImage tex level off dims fmt bufSize pixels c =
     native (GlGetTextureSubImage tex level off dims fmt bufSize pixels) c"

definition glNamedBufferSubData :: "GLname \<Rightarrow> nat \<Rightarrow> nat \<Rightarrow> nat \<Rightarrow> gl_context \<Rightarrow> gl_context" where
  "glNamedBufferSubData buf off sz src c = native (GlNamedBufferSubData buf off sz src) c"

text \<open>The driver hands out a name that is in use neither as a live framebuffer nor in a
  framebuffer binding: here the successor of the largest name in use.\<close>

definition unused_framebuffer_name :: "gl_context \<Rightarrow> GLname" where
  "unused_framebuffer_name c =
     Suc (fold max (read_framebuffer (bindings c) # draw_framebuffer (bindings c) # framebuffers c) 0)"

definition glCreateFramebuffers :: "gl_context \<Rightarrow> GLname \<times> gl_context" where
  "glCreateFramebuffers c =
     (let n = unused_framebuffer_name c
      in (n, native (GlCreateFramebuffers n) (c\<lparr>framebuffers := n # framebuffers c\<rparr>)))"

text \<open>Deleting a framebuffer object that is bound resets that binding to 0.\<close>

definition glDeleteFramebuffers :: "GLname \<Rightarrow> gl_context \<Rightarrow> gl_context" where
  "glDeleteFramebuffers n c =
     native (GlDeleteFramebuffers n)
       (set_bindings (\<lambda>b. b\<lparr>read_framebuffer := (if read_framebuffer b = n then 0 else read_framebuffer b),
                            draw_framebuffer := (if draw_framebuffer b = n then 0 else draw_framebuffer b)\<rparr>)
          (c\<lparr>framebuffers := removeAll n (framebuffers c)\<rparr>))"

definition glIsTexture :: "GLname \<Rightarrow> gl_context \<Rightarrow> bool \<times> gl_context" where
  "glIsTexture t c = (is_texture c t, native (GlIsTexture t) c)"

definition glNamedFramebufferDrawBuffers :: "GLname \<Rightarrow> gl_attachment list \<Rightarrow> gl_context \<Rightarrow> gl_context" where
  "glNamedFramebufferDrawBuffers fb bufs c = native (GlNamedFramebufferDrawBuffers fb bufs) c"

definition glNamedFramebufferTexture :: "GLname \<Rightarrow> gl_attachment \<Rightarrow> GLname \<Rightarrow> gl_context \<Rightarrow> gl_context" where
  "glNamedFramebufferTexture fb att tex c = native (GlNamedFramebufferTexture fb att tex) c"

definition glCheckNamedFramebufferStatus ::
  "GLname \<Rightarrow> gl_framebuffer_target \<Rightarrow> gl_context \<Rightarrow> bool \<times> gl_context" where
  "glCheckNamedFramebufferStatus fb target c =
     (framebuffer_complete c fb, native (GlCheckNamedFramebufferStatus fb target) c)"

definition glBindFramebuffer :: "gl_framebuffer_target \<Rightarrow> GLname \<Rightarrow> gl_context \<Rightarrow> gl_context" where
  "glBindFramebuffer target n c =
     native (GlBindFramebuffer target n)
       (set_bindings (\<lambda>b. case target of
            GL_READ_FRAMEBUFFER \<Rightarrow> b\<lparr>read_framebuffer := n\<rparr>
          | GL_DRAW_FRAMEBUFFER \<Rightarrow> b\<lparr>draw_framebuffer := n\<rparr>
          | GL_FRAMEBUFFER \<Rightarrow> b\<lparr>read_framebuffer := n, draw_framebuffer := n\<rparr>) c)"

definition glBlitFramebuffer :: "GfVec4i \<Rightarrow> GfVec4i \<Rightarrow> gl_blit_mask \<Rightarrow> gl_context \<Rightarrow> gl_context" where
  "glBlitFramebuffer src dst m c = native (GlBlitFramebuffer src dst m) c"

definition glViewport :: "int \<Rightarrow> int \<Rightarrow> int \<Rightarrow> int \<Rightarrow> gl_context \<Rightarrow> gl_context" where
  "glViewport x y w h c = native (GlViewport x y w h) (set_bindings (\<lambda>b. b\<lparr>viewport := (x, y, w, h)\<rparr>) c)"

definition glScissor :: "int \<Rightarrow> int \<Rightarrow> int \<Rightarrow> int \<Rightarrow> gl_context \<Rightarrow> gl_context" where
  "glScissor x y w h c = native (GlScissor x y w h) (set_bindings (\<lambda>b. b\<lparr>scissor := (x, y, w, h)\<rparr>) c)"

definition glBindVertexBuffer :: "uint32 \<Rightarrow> GLname \<Rightarrow> uint32 \<Rightarrow> uint32 \<Rightarrow> gl_context \<Rightarrow> gl_context" where
  "glBindVertexBuffer slot buf off stride c =
     native (GlBindVertexBuffer slot buf off stride)
       (set_bindings (\<lambda>b. b\<lparr>vertex_buffers := (vertex_buffers b)(slot \<mapsto> (buf, off, stride))\<rparr>) c)"

definition glBindBuffer :: "gl_buffer_target \<Rightarrow> GLname \<Rightarrow> gl_context \<Rightarrow> gl_context" where
  "glBindBuffer target n c =
     native (GlBindBuffer target n)
       (set_bindings (\<lambda>b. case target of
            GL_ARRAY_BUFFER \<Rightarrow> b\<lparr>array_buffer := n\<rparr>
          | GL_ELEMENT_ARRAY_BUFFER \<Rightarrow> b\<lparr>element_array_buffer := n\<rparr>) c)"

definition glDrawElementsInstancedBaseVertex ::
  "uint32 \<Rightarrow> uint32 \<Rightarrow> uint32 \<Rightarrow> uint32 \<Rightarrow> gl_context \<Rightarrow> gl_context" where
  "glDrawElementsInstancedBaseVertex cnt off instances base c =
     native (GlDrawElementsInstancedBaseVertex cnt off instances base) c"

definition glClearBufferfv :: "gl_clear_buffer \<Rightarrow> uint32 \<Rightarrow> GfVec4f \<Rightarrow> gl_context \<Rightarrow> gl_context" where
  "glClearBufferfv buf i v c = native (GlClearBufferfv buf i v) c"

definition glBlendFuncSeparatei ::
  "uint32 \<Rightarrow> HgiBlendFactor \<Rightarrow> HgiBlendFactor \<Rightarrow> HgiBlendFactor \<Rightarrow> HgiBlendFactor \<Rightarrow> gl_context \<Rightarrow> gl_context" where
  "glBlendFuncSeparatei i sc dc sa da c =
     native (GlBlendFuncSeparatei i sc dc sa da)
       (set_bindings (\<lambda>b. b\<lparr>blend_func := (blend_func b)(i \<mapsto> (sc, dc, sa, da))\<rparr>) c)"

definition glBlendEquationSeparatei :: "uint32 \<Rightarrow> HgiBlendOp \<Rightarrow> HgiBlendOp \<Rightarrow> gl_context \<Rightarrow> gl_context" where
  "glBlendEquationSeparatei i co ao c =
     native (GlBlendEquationSeparatei i co ao)
       (set_bindings (\<lambda>b. b\<lparr>blend_equation := (blend_equation b)(i \<mapsto> (co, ao))\<rparr>) c)"

definition set_cap :: "gl_cap \<Rightarrow> bool \<Rightarrow> gl_bindings \<Rightarrow> gl_bindings" where
  "set_cap cap v b =
     (case cap of
        GL_BLEND \<Rightarrow> b\<lparr>blend := v\<rparr>
      | GL_SAMPLE_ALPHA_TO_COVERAGE \<Rightarrow> b\<lparr>sample_alpha_to_coverage := v\<rparr>
      | GL_TEXTURE_3D_ENABLE \<Rightarrow> b\<lparr>texture_3d := v\<rparr>)"

definition glEnable :: "gl_cap \<Rightarrow> gl_context \<Rightarrow> gl_context" where
  "glEnable cap c = native (GlEnable cap) (set_bindings (set_cap cap True) c)"

definition glDisable :: "gl_cap \<Rightarrow> gl_context \<Rightarrow> gl_context" where
  "glDisable cap c = native (GlDisable cap) (set_bindings (set_cap cap False) c)"

definition glUseProgram :: "GLname \<Rightarrow> gl_context \<Rightarrow> gl_context" where
  "glUseProgram p c = native (GlUseProgram p) (set_bindings (\<lambda>b. b\<lparr>current_program := p\<rparr>) c)"

definition glActiveTexture :: "nat \<Rightarrow> gl_context \<Rightarrow> gl_context" where
  "glActiveTexture unit c = native (GlActiveTexture unit) (set_bindings (\<lambda>b. b\<lparr>active_texture := unit\<rparr>) c)"

definition glBindTexture :: "gl_texture_target \<Rightarrow> GLname \<Rightarrow> gl_context \<Rightarrow> gl_context" where
  "glBindTexture target t c =
     native (GlBindTexture target t)
       (set_bindings (\<lambda>b. case target of
            GL_TEXTURE_2D \<Rightarrow> b\<lparr>texture_binding_2d := (texture_binding_2d b)(active_texture b := t)\<rparr>
          | GL_TEXTURE_3D \<Rightarrow> b\<lparr>texture_binding_3d := (texture_binding_3d b)(active_texture b := t)\<rparr>) c)"

definition glUniform1i :: "int \<Rightarrow> int \<Rightarrow> gl_context \<Rightarrow> gl_context" where
  "glUniform1i loc v c = native (GlUniform1i loc v) c"

definition glVertexAttribPointer :: "int \<Rightarrow> nat \<Rightarrow> nat \<Rightarrow> nat \<Rightarrow> gl_context \<Rightarrow> gl_context" where
  "glVertexAttribPointer idx n stride off c = native (GlVertexAttribPointer idx n stride off) c"

definition glEnableVertexAttribArray :: "int \<Rightarrow> gl_context \<Rightarrow> gl_context" where
  "glEnableVertexAttribArray idx c =
     native (GlEnableVertexAttribArray idx)
       (set_bindings (\<lambda>b. b\<lparr>vertex_attrib_enabled := (vertex_attrib_enabled b)(idx := True)\<rparr>) c)"

definition glDisableVertexAttribArray :: "int \<Rightarrow> gl_context \<Rightarrow> gl_context" where
  "glDisableVertexAttribArray idx c =
     native (GlDisableVertexAttribArray idx)
       (set_bindings (\<lambda>b. b\<lparr>vertex_attrib_enabled := (vertex_attrib_enabled b)(idx := False)\<rparr>) c)"

definition glDepthMask :: "bool \<Rightarrow> gl_context \<Rightarrow> gl_context" where
  "glDepthMask flag c = native (GlDepthMask flag) (set_bindings (\<lambda>b. b\<lparr>depth_writemask := flag\<rparr>) c)"

text \<open>\<^verbatim>\<open>glStencilMask\<close> takes the mask as a \<^verbatim>\<open>GLuint\<close> and sets the front and the back
  write mask.\<close>

definition glStencilMask :: "uint32 \<Rightarrow> gl_context \<Rightarrow> gl_context" where
  "glStencilMask m c =
     native (GlStencilMask m)
       (set_bindings (\<lambda>b. b\<lparr>stencil_writemask := m, stencil_back_writemask := m\<rparr>) c)"

definition glDepthFunc :: "GLenum \<Rightarrow> gl_context \<Rightarrow> gl_context" where
  "glDepthFunc f c = native (GlDepthFunc f) (set_bindings (\<lambda>b. b\<lparr>depth_func := f\<rparr>) c)"

definition glDrawArrays :: "nat \<Rightarrow> nat \<Rightarrow> gl_context \<Rightarrow> gl_context" where
  "glDrawArrays first cnt c = native (GlDrawArrays first cnt) c"

text \<open>The state queries. \<^verbatim>\<open>glGetIntegerv\<close> returns the state as integers.
  \<^verbatim>\<open>glGetBooleanv\<close> returns a \<^verbatim>\<open>GLboolean\<close>: a boolean state as it is, an integer
  state as \<^verbatim>\<open>GL_FALSE\<close> if and only if it is 0.\<close>

definition is_enabled :: "gl_cap \<Rightarrow> gl_bindings \<Rightarrow> bool" where
  "is_enabled cap b =
     (case cap of
        GL_BLEND \<Rightarrow> blend b
      | GL_SAMPLE_ALPHA_TO_COVERAGE \<Rightarrow> sample_alpha_to_coverage b
      | GL_TEXTURE_3D_ENABLE \<Rightarrow> texture_3d b)"

definition glGetIntegerv :: "gl_pname \<Rightarrow> gl_context \<Rightarrow> int list \<times> gl_context" where
  "glGetIntegerv pname c =
     (let b = bindings c in
      (case pname of
         GL_READ_FRAMEBUFFER_BINDING \<Rightarrow> [int (read_framebuffer b)]
       | GL_DRAW_FRAMEBUFFER_BINDING \<Rightarrow> [int (draw_framebuffer b)]
       | GL_DEPTH_WRITEMASK \<Rightarrow> [if depth_writemask b then 1 else 0]
       | GL_STENCIL_WRITEMASK \<Rightarrow> [uint (stencil_writemask b)]
       | GL_DEPTH_FUNC \<Rightarrow> [int (depth_func b)]
       | GL_VIEWPORT \<Rightarrow> (case viewport b of (x, y, w, h) \<Rightarrow> [x, y, w, h])
       | Cap cap \<Rightarrow> [if is_enabled cap b then 1 else 0]),
      native (GlGetIntegerv pname) c)"

definition glGetBooleanv :: "gl_pname \<Rightarrow> gl_context \<Rightarrow> bool \<times> gl_context" where
  "glGetBooleanv pname c = (hd (fst (glGetIntegerv pname c)) \<noteq> 0, native (GlGetBooleanv pname) c)"

text \<open>A \<^verbatim>\<open>GLboolean\<close> passed where a \<^verbatim>\<open>GLuint\<close> is expected: \<^verbatim>\<open>GL_TRUE\<close> is 1,
  \<^verbatim>\<open>GL_FALSE\<close> is 0.\<close>

definition GLuint_of_GLboolean :: "bool \<Rightarrow> uint32" where
  "GLuint_of_GLboolean flag = (if flag then 1 else 0)"

text \<open>A sequence of statements on the context, run in order.\<close>

definition run :: "(gl_context \<Rightarrow> gl_context) list \<Rightarrow> gl_context \<Rightarrow> gl_context" where
  "run steps c = fold (\<lambda>step. step) steps c"

subsection \<open>Resource handles and operation descriptors\<close>

text \<open>
  Modelled from the spec: the headers of Hgi and HgiGL that declare the handles and the
  operation descriptors are not among the sources. A handle resolves to its object, which
  has a native identifier and a descriptor, or to null (\<open>None\<close>). A CPU pointer is an address
  or null. Of each descriptor the fields that \<^verbatim>\<open>ops.cpp\<close> reads are kept, with the types
  the code gives them: \<^verbatim>\<open>startLayer + numLayers\<close> is stored in a \<^verbatim>\<open>uint32_t\<close>, byte offsets and
  the first binding are \<^verbatim>\<open>uint32_t\<close>, sizes are \<^verbatim>\<open>size_t\<close> values;
  \<^verbatim>\<open>destinationBufferByteSize\<close> is narrowed to the \<^verbatim>\<open>GLsizei\<close> parameter of the read-back.
\<close>

record HgiTextureDesc =
  tex_usage :: "HgiTextureUsageBits list"
  format :: HgiFormat
  dimensions :: GfVec3i
  layerCount :: nat

record HgiGLTexture =
  textureId :: GLname
  textureDesc :: HgiTextureDesc

record HgiBufferDesc =
  buf_usage :: "HgiBufferUsage list"
  vertexStride :: uint32

record HgiGLBuffer =
  bufferId :: GLname
  bufferDesc :: HgiBufferDesc

record HgiTextureGpuToCpuOp =
  gpuSourceTexture :: "HgiGLTexture option"
  sourceTexelOffset :: GfVec3i
  mipLevel :: uint32
  startLayer :: uint32
  numLayers :: uint32
  cpuDestinationBuffer :: "nat option"
  destinationBufferByteSize :: nat

record HgiBufferCpuToGpuOp =
  cpuSourceBuffer :: "nat option"
  sourceByteOffset :: nat
  gpuDestinationBuffer :: "HgiGLBuffer option"
  destinationByteOffset :: nat
  byteSize :: nat

record HgiResolveImageOp =
  source :: "HgiGLTexture option"
  destination :: "HgiGLTexture option"
  usage :: "HgiTextureUsageBits list"
  sourceRegion :: GfVec4i
  destinationRegion :: GfVec4i

record HgiAttachmentDesc =
  loadOp :: HgiAttachmentLoadOp
  clearValue :: GfVec4f
  blendEnabled :: bool
  srcColorBlendFactor :: HgiBlendFactor
  dstColorBlendFactor :: HgiBlendFactor
  srcAlphaBlendFactor :: HgiBlendFactor
  dstAlphaBlendFactor :: HgiBlendFactor
  colorBlendOp :: HgiBlendOp
  alphaBlendOp :: HgiBlendOp

record HgiGraphicsEncoderDesc =
  colorAttachmentDescs :: "HgiAttachmentDesc list"
  depthAttachmentDesc :: HgiAttachmentDesc
  colorTextures :: "HgiGLTexture option list"
  depthTexture :: "HgiGLTexture option"

text \<open>Modelled from the spec: \<^verbatim>\<open>HgiGraphicsEncoderDesc::HasAttachments\<close> is declared in
  \<^verbatim>\<open>hgi/graphicsEncoderDesc.h\<close>, which is not among the sources; the descriptor "must declare
  at least one attachment", a colour attachment or the depth attachment.\<close>

definition HasAttachments :: "HgiGraphicsEncoderDesc \<Rightarrow> bool" where
  "HasAttachments desc = (\<not> (colorAttachmentDescs desc = [] \<and> depthTexture desc = None))"

subsection \<open>The ops of \<^verbatim>\<open>HgiGLOps\<close>\<close>

definition PushDebugGroup :: "string \<Rightarrow> gl_context \<Rightarrow> op_result" where
  "PushDebugGroup label c = Returned (if khr_debug c then glPushDebugGroup label c else c)"

definition PopDebugGroup :: "gl_context \<Rightarrow> op_result" where
  "PopDebugGroup c = Returned (if khr_debug c then glPopDebugGroup c else c)"

definition CopyTextureGpuToCpu :: "HgiTextureGpuToCpuOp \<Rightarrow> gl_context \<Rightarrow> op_result" where
  "CopyTextureGpuToCpu copyOp c =
     (case gpuSourceTexture copyOp of
        None \<Rightarrow> Returned (TF_VERIFY False ''Invalid texture handle'' c)
      | Some srcTexture \<Rightarrow>
          if textureId srcTexture = 0 then Returned (TF_VERIFY False ''Invalid texture handle'' c)
          else if destinationBufferByteSize copyOp = 0
          then Returned (emit (Warn ''The size of the data to copy was zero (aborted)'') c)
          else
            let texDesc = textureDesc srcTexture;
                layerCnt = startLayer copyOp + numLayers copyOp
            in if \<not> (layerCount texDesc \<ge> unat layerCnt)
               then Returned (TF_VERIFY False ''Texture has less layers than attempted to be copied'' c)
               else
                 let (glFormat, c1) =
                       (if HgiTextureUsageBitsColorTarget \<in> set (tex_usage texDesc)
                        then (GetFormat (format texDesc), c)
                        else if HgiTextureUsageBitsDepthTarget \<in> set (tex_usage texDesc)
                        then (GL_DEPTH_COMPONENT_FLOAT,
                              TF_VERIFY (format texDesc = HgiFormatFloat32)
                                ''texDesc.format == HgiFormatFloat32'' c)
                        else (GL_FORMAT_ZERO, emit (CodingError ''Unknown HgTextureUsage bit'') c))
                 in Returned (run
                      [glMemoryBarrier GL_ALL_BARRIER_BITS,
                       glGetTextureSubImage (textureId srcTexture) (mipLevel copyOp)
                         (sourceTexelOffset copyOp) (dimensions texDesc) glFormat
                         (word_of_nat (destinationBufferByteSize copyOp))
                         (cpuDestinationBuffer copyOp),
                       HGIGL_POST_PENDING_GL_ERRORS] c1))"

definition CopyBufferCpuToGpu :: "HgiBufferCpuToGpuOp \<Rightarrow> gl_context \<Rightarrow> op_result" where
  "CopyBufferCpuToGpu copyOp c =
     (if byteSize copyOp = 0 \<or> cpuSourceBuffer copyOp = None \<or> gpuDestinationBuffer copyOp = None
      then Returned c
      else
        let glBuffer = the (gpuDestinationBuffer copyOp);
            src = the (cpuSourceBuffer copyOp) + sourceByteOffset copyOp;
            dstOffset = destinationByteOffset copyOp
        in Returned (run
             [glNamedBufferSubData (bufferId glBuffer) dstOffset (byteSize copyOp) src,
              glMemoryBarrier GL_BUFFER_UPDATE_BARRIER_BIT] c))"

definition ResolveImage_attach ::
  "bool \<Rightarrow> GLname \<Rightarrow> GLname \<Rightarrow> GLname \<Rightarrow> GLname \<Rightarrow> gl_context \<Rightarrow> gl_context" where
  "ResolveImage_attach depth readFramebuffer writeFramebuffer readAttachment writeAttachment c =
     (if depth
      then run
        [glNamedFramebufferDrawBuffers readFramebuffer [GL_NONE],
         glNamedFramebufferDrawBuffers writeFramebuffer [GL_NONE],
         glNamedFramebufferTexture readFramebuffer GL_COLOR_ATTACHMENT0 0,
         glNamedFramebufferTexture writeFramebuffer GL_COLOR_ATTACHMENT0 0,
         glNamedFramebufferTexture readFramebuffer GL_DEPTH_ATTACHMENT readAttachment,
         glNamedFramebufferTexture writeFramebuffer GL_DEPTH_ATTACHMENT writeAttachment] c
      else run
        [glNamedFramebufferDrawBuffers readFramebuffer [GL_COLOR_ATTACHMENT0],
         glNamedFramebufferDrawBuffers writeFramebuffer [GL_COLOR_ATTACHMENT0],
         glNamedFramebufferTexture readFramebuffer GL_DEPTH_ATTACHMENT 0,
         glNamedFramebufferTexture writeFramebuffer GL_DEPTH_ATTACHMENT 0,
         glNamedFramebufferTexture readFramebuffer GL_COLOR_ATTACHMENT0 readAttachment,
         glNamedFramebufferTexture writeFramebuffer GL_COLOR_ATTACHMENT0 writeAttachment] c)"

definition ResolveImage :: "HgiResolveImageOp \<Rightarrow> gl_context \<Rightarrow> op_result" where
  "ResolveImage resolveOp c =
     (let (readFramebuffer, c1) = glCreateFramebuffers c;
          (writeFramebuffer, c2) = glCreateFramebuffers c1
      in case (source resolveOp, destination resolveOp) of
           (Some glSrcTexture, Some glDstTexture) \<Rightarrow>
             let readAttachment = textureId glSrcTexture;
                 (srcIsTexture, c3) = glIsTexture readAttachment c2;
                 c4 = TF_VERIFY srcIsTexture ''Source is not a texture'' c3;
                 writeAttachment = textureId glDstTexture;
                 (dstIsTexture, c5) = glIsTexture writeAttachment c4;
                 c6 = TF_VERIFY dstIsTexture ''Destination is not a texture'' c5;
                 depth = (HgiTextureUsageBitsDepthTarget \<in> set (usage resolveOp));
                 c7 = ResolveImage_attach depth readFramebuffer writeFramebuffer
                        readAttachment writeAttachment c6;
                 (readComplete, c8) = glCheckNamedFramebufferStatus readFramebuffer GL_READ_FRAMEBUFFER c7;
                 c9 = TF_VERIFY readComplete ''status == GL_FRAMEBUFFER_COMPLETE'' c8;
                 (writeComplete, c10) = glCheckNamedFramebufferStatus writeFramebuffer GL_DRAW_FRAMEBUFFER c9;
                 c11 = TF_VERIFY writeComplete ''status == GL_FRAMEBUFFER_COMPLETE'' c10;
                 msk = (if depth then GL_DEPTH_BUFFER_BIT else GL_COLOR_BUFFER_BIT);
                 (restoreRead, c12) = glGetIntegerv GL_READ_FRAMEBUFFER_BINDING c11;
                 (restoreWrite, c13) = glGetIntegerv GL_DRAW_FRAMEBUFFER_BINDING c12
             in Returned (run
                  [glBindFramebuffer GL_READ_FRAMEBUFFER readFramebuffer,
                   glBindFramebuffer GL_DRAW_FRAMEBUFFER writeFramebuffer,
                   glBlitFramebuffer (sourceRegion resolveOp) (destinationRegion resolveOp) msk,
                   glBindFramebuffer GL_READ_FRAMEBUFFER (nat (hd restoreRead)),
                   glBindFramebuffer GL_DRAW_FRAMEBUFFER (nat (hd restoreWrite)),
                   glDeleteFramebuffers readFramebuffer,
                   glDeleteFramebuffers writeFramebuffer,
                   HGIGL_POST_PENDING_GL_ERRORS] c13)
         | _ \<Rightarrow> Returned (emit (CodingError ''No textures provided for resolve'') c2))"

definition SetViewport :: "GfVec4i \<Rightarrow> gl_context \<Rightarrow> op_result" where
  "SetViewport vp c = (case vp of (x, y, w, h) \<Rightarrow> Returned (glViewport x y w h c))"

definition SetScissor :: "GfVec4i \<Rightarrow> gl_context \<Rightarrow> op_result" where
  "SetScissor sc c = (case sc of (x, y, w, h) \<Rightarrow> Returned (glScissor x y w h c))"

text \<open>\<^verbatim>\<open>HgiGLPipeline::BindPipeline\<close> and \<^verbatim>\<open>HgiGLResourceBindings::BindResources\<close> are
  defined in other files: the object a handle resolves to is given by its bind routine.\<close>

type_synonym HgiGLPipeline = "gl_context \<Rightarrow> gl_context"
type_synonym HgiGLResourceBindings = "gl_context \<Rightarrow> gl_context"

definition BindPipeline :: "HgiGLPipeline option \<Rightarrow> gl_context \<Rightarrow> op_result" where
  "BindPipeline pipeline c = (case pipeline of Some p \<Rightarrow> Returned (p c) | None \<Rightarrow> Returned c)"

definition BindResources :: "HgiGLResourceBindings option \<Rightarrow> gl_context \<Rightarrow> op_result" where
  "BindResources res c = (case res of Some rb \<Rightarrow> Returned (rb c) | None \<Rightarrow> Returned c)"

text \<open>The loop of \<^verbatim>\<open>BindVertexBuffers\<close> from index \<open>i\<close> on, over the handles that are left.
  The slot \<^verbatim>\<open>firstBinding + i\<close> is computed in \<^verbatim>\<open>size_t\<close> and passed as a \<^verbatim>\<open>GLuint\<close>. The
  loop runs to \<^verbatim>\<open>vertexBuffers.size()\<close> whatever the size of \<^verbatim>\<open>byteOffsets\<close>.\<close>

fun BindVertexBuffers_loop ::
  "uint32 \<Rightarrow> HgiGLBuffer option list \<Rightarrow> uint32 list \<Rightarrow> nat \<Rightarrow> gl_context \<Rightarrow> op_result" where
  "BindVertexBuffers_loop firstBinding [] byteOffsets i c = Returned c"
| "BindVertexBuffers_loop firstBinding (bufHandle # rest) byteOffsets i c =
     (case bufHandle of
        None \<Rightarrow> Faulted NullDereference c
      | Some buf \<Rightarrow>
          let desc = bufferDesc buf;
              c1 = TF_VERIFY (HgiBufferUsageVertex \<in> set (buf_usage desc))
                     ''desc.usage & HgiBufferUsageVertex'' c;
              (byteOffset, c2) = vector_read byteOffsets i c1
          in BindVertexBuffers_loop firstBinding rest byteOffsets (Suc i)
               (glBindVertexBuffer (word_of_nat (unat firstBinding + i)) (bufferId buf)
                  byteOffset (vertexStride desc) c2))"

definition BindVertexBuffers ::
  "uint32 \<Rightarrow> HgiGLBuffer option list \<Rightarrow> uint32 list \<Rightarrow> gl_context \<Rightarrow> op_result" where
  "BindVertexBuffers firstBinding vertexBuffers byteOffsets c =
     (let c1 = TF_VERIFY (length byteOffsets = length vertexBuffers)
                 ''byteOffsets.size() == vertexBuffers.size()'' c;
          c2 = TF_VERIFY (length byteOffsets = length vertexBuffers)
                 ''byteOffsets.size() == vertexBuffers.size()'' c1
      in case BindVertexBuffers_loop firstBinding vertexBuffers byteOffsets 0 c2 of
           Returned c3 \<Rightarrow> Returned (HGIGL_POST_PENDING_GL_ERRORS c3)
         | Faulted f c3 \<Rightarrow> Faulted f c3)"

definition DrawIndexed ::
  "HgiGLBuffer option \<Rightarrow> uint32 \<Rightarrow> uint32 \<Rightarrow> uint32 \<Rightarrow> uint32 \<Rightarrow> uint32 \<Rightarrow> gl_context \<Rightarrow> op_result" where
  "DrawIndexed indexBuffer indexCount indexBufferByteOffset vertexOffset instanceCount firstInstance c =
     (let c1 = TF_VERIFY (instanceCount > 0) ''instanceCount>0'' c
      in case indexBuffer of
           None \<Rightarrow> Faulted NullDereference c1
         | Some indexBuf \<Rightarrow>
             let indexDesc = bufferDesc indexBuf;
                 c2 = TF_VERIFY (HgiBufferUsageIndex32 \<in> set (buf_usage indexDesc))
                        ''indexDesc.usage & HgiBufferUsageIndex32'' c1
             in Returned (run
                  [glBindBuffer GL_ELEMENT_ARRAY_BUFFER (bufferId indexBuf),
                   glDrawElementsInstancedBaseVertex indexCount indexBufferByteOffset
                     instanceCount vertexOffset,
                   HGIGL_POST_PENDING_GL_ERRORS] c2))"

text \<open>The loop of \<^verbatim>\<open>BindFramebufferOp\<close> over the colour attachments from index \<open>i\<close> on,
  with the flag \<^verbatim>\<open>blendEnabled\<close> it accumulates. The \<^verbatim>\<open>GLenum\<close> that
  \<^verbatim>\<open>HgiGLConversions\<close> gives for a blend factor or a blend op is written as that factor or op.\<close>

fun BindFramebufferOp_loop ::
  "HgiAttachmentDesc list \<Rightarrow> nat \<Rightarrow> bool \<Rightarrow> gl_context \<Rightarrow> bool \<times> gl_context" where
  "BindFramebufferOp_loop [] i blendEnabled' c = (blendEnabled', c)"
| "BindFramebufferOp_loop (colorAttachment # rest) i blendEnabled' c =
     (let c1 = (if loadOp colorAttachment = HgiAttachmentLoadOpClear
                then glClearBufferfv GL_COLOR (word_of_nat i) (clearValue colorAttachment) c
                else c);
          blendEnabled'' = (blendEnabled' \<or> blendEnabled colorAttachment);
          c2 = glBlendFuncSeparatei (word_of_nat i)
                 (srcColorBlendFactor colorAttachment) (dstColorBlendFactor colorAttachment)
                 (srcAlphaBlendFactor colorAttachment) (dstAlphaBlendFactor colorAttachment) c1;
          c3 = glBlendEquationSeparatei (word_of_nat i)
                 (colorBlendOp colorAttachment) (alphaBlendOp colorAttachment) c2
      in BindFramebufferOp_loop rest (Suc i) blendEnabled'' c3)"

text \<open>\<^verbatim>\<open>HgiGLDevice::AcquireFramebuffer\<close> is defined in another file: the device is given by
  that routine, which returns the name of a framebuffer for the descriptor.\<close>

type_synonym HgiGLDevice = "HgiGraphicsEncoderDesc \<Rightarrow> gl_context \<Rightarrow> GLname \<times> gl_context"

definition BindFramebufferOp :: "HgiGLDevice \<Rightarrow> HgiGraphicsEncoderDesc \<Rightarrow> gl_context \<Rightarrow> op_result" where
  "BindFramebufferOp device desc c =
     (let c1 = TF_VERIFY (HasAttachments desc) ''Missing attachments'' c;
          (framebuffer, c2) = device desc c1;
          c3 = glBindFramebuffer GL_FRAMEBUFFER framebuffer c2;
          (blendEnabled', c4) = BindFramebufferOp_loop (colorAttachmentDescs desc) 0 False c3;
          depthAttachment = depthAttachmentDesc desc;
          c5 = (if depthTexture desc \<noteq> None \<and> loadOp depthAttachment = HgiAttachmentLoadOpClear
                then glClearBufferfv GL_DEPTH 0 (clearValue depthAttachment) c4
                else c4);
          c6 = (if blendEnabled' then glEnable GL_BLEND c5 else glDisable GL_BLEND c5)
      in Returned (HGIGL_POST_PENDING_GL_ERRORS c6))"

subsection \<open>The framebuffer of a render pass\<close>






subsection \<open>The full-screen pass of \<^verbatim>\<open>HdxColorCorrectionTask\<close>\<close>

text \<open>The members of the task that \<^verbatim>\<open>_ApplyColorCorrection\<close> reads. \<^verbatim>\<open>_shaderProgram\<close> is a
  pointer to the program object, given by the program's id, or null.\<close>

record HdxColorCorrectionTask =
  shaderProgram :: "GLname option"
  texture :: GLname
  texture3dLUT :: GLname
  vertexBuffer :: GLname
  locations :: "nat \<Rightarrow> int"
  framebufferSize :: "int \<times> int"

definition COLOR_IN :: nat where "COLOR_IN = 0"
definition POSITION :: nat where "POSITION = 1"
definition UV_IN :: nat where "UV_IN = 2"
definition LUT3D_IN :: nat where "LUT3D_IN = 3"

definition GLF_POST_PENDING_GL_ERRORS :: "gl_context \<Rightarrow> gl_context" where
  "GLF_POST_PENDING_GL_ERRORS c = emit PostPendingGLErrors c"

text \<open>\<open>useOCIO\<close> is the local of that name: whether the OpenColorIO plugin is compiled in,
  selected by the colour-correction mode, and \<^verbatim>\<open>$OCIO\<close> is set. \<^verbatim>\<open>sizeof(float)*6\<close> is 24,
  \<^verbatim>\<open>sizeof(float)*4\<close> is 16.\<close>

definition ApplyColorCorrection :: "bool \<Rightarrow> HdxColorCorrectionTask \<Rightarrow> gl_context \<Rightarrow> op_result" where
  "ApplyColorCorrection useOCIO task c =
     (case shaderProgram task of
        None \<Rightarrow> Faulted NullDereference c
      | Some programId \<Rightarrow>
          let c1 = run
                [glUseProgram programId,
                 glActiveTexture 0,
                 glBindTexture GL_TEXTURE_2D (texture task),
                 glUniform1i (locations task COLOR_IN) 0] c;
              c2 = (if useOCIO
                    then run
                      [glEnable GL_TEXTURE_3D_ENABLE,
                       glActiveTexture 1,
                       glBindTexture GL_TEXTURE_3D (texture3dLUT task),
                       glUniform1i (locations task LUT3D_IN) 1] c1
                    else c1);
              c3 = run
                [glBindBuffer GL_ARRAY_BUFFER (vertexBuffer task),
                 glVertexAttribPointer (locations task POSITION) 4 24 0,
                 glEnableVertexAttribArray (locations task POSITION),
                 glVertexAttribPointer (locations task UV_IN) 2 24 16,
                 glEnableVertexAttribArray (locations task UV_IN)] c2;
              (restoreDepthWriteMask, c4) = glGetBooleanv GL_DEPTH_WRITEMASK c3;
              (restoreStencilWriteMask, c5) = glGetBooleanv GL_STENCIL_WRITEMASK c4;
              c6 = run [glDepthMask False, glStencilMask (GLuint_of_GLboolean False)] c5;
              (restoreDepthFunc, c7) = glGetIntegerv GL_DEPTH_FUNC c6;
              c8 = glDepthFunc GL_ALWAYS c7;
              (restoreViewport, c9) = glGetIntegerv GL_VIEWPORT c8;
              c10 = glViewport 0 0 (fst (framebufferSize task)) (snd (framebufferSize task)) c9;
              (restoreblendEnabled, c11) = glGetBooleanv (Cap GL_BLEND) c10;
              c12 = glDisable GL_BLEND c11;
              (restoreAlphaToCoverage, c13) = glGetBooleanv (Cap GL_SAMPLE_ALPHA_TO_COVERAGE) c12;
              c14 = glDisable GL_SAMPLE_ALPHA_TO_COVERAGE c13;
              c15 = glDrawArrays 0 3 c14;
              c16 = (if restoreAlphaToCoverage then glEnable GL_SAMPLE_ALPHA_TO_COVERAGE c15 else c15);
              c17 = (if restoreblendEnabled then glEnable GL_BLEND c16 else c16);
              c18 = run
                [glViewport (restoreViewport ! 0) (restoreViewport ! 1)
                   (restoreViewport ! 2) (restoreViewport ! 3),
                 glDepthFunc (nat (hd restoreDepthFunc)),
                 glDepthMask restoreDepthWriteMask,
                 glStencilMask (GLuint_of_GLboolean restoreStencilWriteMask),
                 glBindBuffer GL_ARRAY_BUFFER 0,
                 glDisableVertexAttribArray (locations task POSITION),
                 glDisableVertexAttribArray (locations task UV_IN),
                 glUseProgram 0,
                 glActiveTexture 0,
                 glBindTexture GL_TEXTURE_2D 0] c17;
              c19 = (if useOCIO
                     then run
                       [glActiveTexture 1,
                        glBindTexture GL_TEXTURE_3D 0,
                        glDisable GL_TEXTURE_3D_ENABLE] c18
                     else c18)
          in Returned (GLF_POST_PENDING_GL_ERRORS c19))"

subsection \<open>A context and resources to run the ops on\<close>

text \<open>The binding state of a freshly created GL context: nothing bound, depth writes on with
  comparison \<^verbatim>\<open>GL_LESS\<close>, every bit of the stencil write masks set.\<close>

definition initial_bindings :: gl_bindings where
  "initial_bindings =
     \<lparr>read_framebuffer = 0, draw_framebuffer = 0, viewport = (0, 0, 640, 480),
      scissor = (0, 0, 640, 480), blend = False, sample_alpha_to_coverage = False,
      texture_3d = False, depth_writemask = True, depth_func = GL_LESS,
      stencil_writemask = - 1, stencil_back_writemask = - 1, active_texture = 0,
      texture_binding_2d = (\<lambda>_. 0), texture_binding_3d = (\<lambda>_. 0), current_program = 0,
      array_buffer = 0, element_array_buffer = 0, vertex_buffers = (\<lambda>_. None),
      vertex_attrib_enabled = (\<lambda>_. False), blend_func = (\<lambda>_. None),
      blend_equation = (\<lambda>_. None)\<rparr>"

definition initial_context :: gl_context where
  "initial_context =
     \<lparr>bindings = initial_bindings, framebuffers = [], is_texture = (\<lambda>_. True),
      framebuffer_complete = (\<lambda>_. True), khr_debug = True, past_the_end = (\<lambda>_. 255),
      trace = []\<rparr>"

definition vertex_buffer_example :: "uint32 \<Rightarrow> HgiGLBuffer" where
  "vertex_buffer_example stride =
     \<lparr>bufferId = 7, bufferDesc = \<lparr>buf_usage = [HgiBufferUsageVertex], vertexStride = stride\<rparr>\<rparr>"

definition index_buffer_example :: HgiGLBuffer where
  "index_buffer_example =
     \<lparr>bufferId = 9, bufferDesc = \<lparr>buf_usage = [HgiBufferUsageIndex32], vertexStride = 0\<rparr>\<rparr>"

definition texture_example :: "GLname \<Rightarrow> HgiTextureUsageBits \<Rightarrow> HgiGLTexture" where
  "texture_example name u =
     \<lparr>textureId = name,
      textureDesc = \<lparr>tex_usage = [u], format = HgiFormatFloat32, dimensions = (4, 4, 1), layerCount = 1\<rparr>\<rparr>"

definition attachment_example :: "HgiAttachmentLoadOp \<Rightarrow> bool \<Rightarrow> HgiAttachmentDesc" where
  "attachment_example op enabled =
     \<lparr>loadOp = op, clearValue = (0, 0, 0, 1), blendEnabled = enabled,
      srcColorBlendFactor = 1, dstColorBlendFactor = 0, srcAlphaBlendFactor = 1,
      dstAlphaBlendFactor = 0, colorBlendOp = 0, alphaBlendOp = 0\<rparr>"

definition encoder_desc_example :: HgiGraphicsEncoderDesc where
  "encoder_desc_example =
     \<lparr>colorAttachmentDescs =
        [attachment_example HgiAttachmentLoadOpClear False,
         attachment_example HgiAttachmentLoadOpLoad True],
      depthAttachmentDesc = attachment_example HgiAttachmentLoadOpDontCare False,
      colorTextures =
        [Some (texture_example 11 HgiTextureUsageBitsColorTarget),
         Some (texture_example 12 HgiTextureUsageBitsColorTarget)],
      depthTexture = None\<rparr>"

definition depth_only_desc_example :: HgiGraphicsEncoderDesc where
  "depth_only_desc_example =
     \<lparr>colorAttachmentDescs = [],
      depthAttachmentDesc = attachment_example HgiAttachmentLoadOpClear False,
      colorTextures = [],
      depthTexture = Some (texture_example 13 HgiTextureUsageBitsDepthTarget)\<rparr>"

text \<open>A device whose framebuffer for every descriptor is already there, under the name 5.\<close>

definition device_example :: HgiGLDevice where
  "device_example desc c = (5, c)"

definition resolve_op_example :: "HgiGLTexture option \<Rightarrow> HgiTextureUsageBits \<Rightarrow> HgiResolveImageOp" where
  "resolve_op_example src u =
     \<lparr>source = src, destination = Some (texture_example 12 u), usage = [u],
      sourceRegion = (0, 0, 4, 4), destinationRegion = (0, 0, 4, 4)\<rparr>"

definition texture_copy_example :: "uint32 \<Rightarrow> uint32 \<Rightarrow> nat \<Rightarrow> HgiTextureGpuToCpuOp" where
  "texture_copy_example start num bytes =
     \<lparr>gpuSourceTexture = Some (texture_example 11 HgiTextureUsageBitsColorTarget),
      sourceTexelOffset = (0, 0, 0), mipLevel = 0, startLayer = start, numLayers = num,
      cpuDestinationBuffer = Some 4096, destinationBufferByteSize = bytes\<rparr>"

definition buffer_copy_example :: "nat \<Rightarrow> HgiBufferCpuToGpuOp" where
  "buffer_copy_example bytes =
     \<lparr>cpuSourceBuffer = Some 4096, sourceByteOffset = 0,
      gpuDestinationBuffer = Some (vertex_buffer_example 12), destinationByteOffset = 0,
      byteSize = bytes\<rparr>"

definition task_example :: HdxColorCorrectionTask where
  "task_example =
     \<lparr>shaderProgram = Some 21, texture = 22, texture3dLUT = 23, vertexBuffer = 24,
      locations = (\<lambda>k. int k), framebufferSize = (640, 480)\<rparr>"

text \<open>What an invocation appended to the trace, and the context an invocation ended in.\<close>

definition result_context :: "op_result \<Rightarrow> gl_context" where
  "result_context r = (case r of Returned c \<Rightarrow> c | Faulted f c \<Rightarrow> c)"

definition returns :: "op_result \<Rightarrow> bool" where
  "returns r = (case r of Returned c \<Rightarrow> True | Faulted f c \<Rightarrow> False)"

definition issued :: "gl_context \<Rightarrow> op_result \<Rightarrow> event list" where
  "issued c r = drop (length (trace c)) (trace (result_context r))"




text \<open>The native calls among the events of a trace, in order.\<close>

fun native_calls :: "event list \<Rightarrow> gl_call list" where
  "native_calls [] = []"
| "native_calls (Native k # es) = k # native_calls es"
| "native_calls (e # es) = native_calls es"

text \<open>An invocation issues a native call; an invocation ends by polling the pending errors.\<close>

definition issues_native_call :: "gl_context \<Rightarrow> op_result \<Rightarrow> bool" where
  "issues_native_call c r = (native_calls (issued c r) \<noteq> [])"

definition polls_at_end :: "gl_context \<Rightarrow> op_result \<Rightarrow> bool" where
  "polls_at_end c r = (issued c r \<noteq> [] \<and> last (issued c r) = PostPendingGLErrors)"

text \<open>What the loop of \<^verbatim>\<open>BindVertexBuffers\<close> leaves in the trace when it binds the buffers
  \<open>bufs\<close> at the indices from \<open>i\<close> on: per buffer the failed verification of its usage, if it
  fails, the mark of a read past the end of \<^verbatim>\<open>byteOffsets\<close>, if it is one, and the bind call.
  \<open>beyond\<close> is what lies behind \<^verbatim>\<open>byteOffsets\<close>.\<close>

fun bound_events :: "(nat \<Rightarrow> uint32) \<Rightarrow> uint32 \<Rightarrow> HgiGLBuffer list \<Rightarrow> uint32 list \<Rightarrow> nat \<Rightarrow> event list" where
  "bound_events beyond firstBinding [] byteOffsets i = []"
| "bound_events beyond firstBinding (buf # bufs) byteOffsets i =
     (if HgiBufferUsageVertex \<in> set (buf_usage (bufferDesc buf)) then []
      else [VerifyFailed ''desc.usage & HgiBufferUsageVertex''])
     @ (if i < length byteOffsets then [] else [OutOfRangeRead i])
     @ Native (GlBindVertexBuffer (firstBinding + word_of_nat i) (bufferId buf)
         (if i < length byteOffsets then byteOffsets ! i else beyond i)
         (vertexStride (bufferDesc buf)))
     # bound_events beyond firstBinding bufs byteOffsets (Suc i)"

text \<open>What the loop of \<^verbatim>\<open>BindFramebufferOp\<close> leaves in the trace for the colour attachments at
  the indices from \<open>i\<close> on.\<close>

fun attachment_events :: "HgiAttachmentDesc list \<Rightarrow> nat \<Rightarrow> event list" where
  "attachment_events [] i = []"
| "attachment_events (a # as) i =
     (if loadOp a = HgiAttachmentLoadOpClear
      then [Native (GlClearBufferfv GL_COLOR (word_of_nat i) (clearValue a))] else [])
     @ [Native (GlBlendFuncSeparatei (word_of_nat i) (srcColorBlendFactor a) (dstColorBlendFactor a)
          (srcAlphaBlendFactor a) (dstAlphaBlendFactor a)),
        Native (GlBlendEquationSeparatei (word_of_nat i) (colorBlendOp a) (alphaBlendOp a))]
     @ attachment_events as (Suc i)"

section \<open>Properties\<close>

subsection \<open>The context under the primitives\<close>

lemma run_Nil [simp]: "run [] c = c"
  by (simp add: run_def)

lemma run_Cons [simp]: "run (step # steps) c = run steps (step c)"
  by (simp add: run_def)

lemma trace_emit [simp]: "trace (emit e c) = trace c @ [e]"
  by (simp add: emit_def)

lemma bindings_emit [simp]: "bindings (emit e c) = bindings c"
  by (simp add: emit_def)

lemma framebuffers_emit [simp]: "framebuffers (emit e c) = framebuffers c"
  by (simp add: emit_def)

lemma trace_set_bindings [simp]: "trace (set_bindings f c) = trace c"
  by (simp add: set_bindings_def)

lemma bindings_set_bindings [simp]: "bindings (set_bindings f c) = f (bindings c)"
  by (simp add: set_bindings_def)

lemma framebuffers_set_bindings [simp]: "framebuffers (set_bindings f c) = framebuffers c"
  by (simp add: set_bindings_def)

lemma issued_Returned_append [simp]: "trace c' = trace c @ es \<Longrightarrow> issued c (Returned c') = es"
  by (simp add: issued_def result_context_def)

subsection \<open>The guard of \<^verbatim>\<open>CopyBufferCpuToGpu\<close>\<close>

text \<open>
  C9. \<^verbatim>\<open>CopyBufferCpuToGpu\<close> with a byte size of 0, with a null source pointer or with a null
  destination handle returns with the context as it was: nothing is added to the trace, so
  there is no native write call and no buffer-update barrier.
\<close>

theorem CopyBufferCpuToGpu_refuses:
  assumes "byteSize copyOp = 0 \<or> cpuSourceBuffer copyOp = None \<or> gpuDestinationBuffer copyOp = None"
  shows "CopyBufferCpuToGpu copyOp c = Returned c
    \<and> issued c (CopyBufferCpuToGpu copyOp c) = []
    \<and> (\<forall>b off n src. Native (GlNamedBufferSubData b off n src) \<notin> set (issued c (CopyBufferCpuToGpu copyOp c)))
    \<and> Native (GlMemoryBarrier GL_BUFFER_UPDATE_BARRIER_BIT) \<notin> set (issued c (CopyBufferCpuToGpu copyOp c))"
  using assms by (simp add: CopyBufferCpuToGpu_def)

theorem CopyBufferCpuToGpu_refuses_witness:
  "CopyBufferCpuToGpu (buffer_copy_example 0) initial_context = Returned initial_context
   \<and> issued initial_context (CopyBufferCpuToGpu (buffer_copy_example 0) initial_context) = []
   \<and> CopyBufferCpuToGpu ((buffer_copy_example 16)\<lparr>cpuSourceBuffer := None\<rparr>) initial_context
       = Returned initial_context
   \<and> CopyBufferCpuToGpu ((buffer_copy_example 16)\<lparr>gpuDestinationBuffer := None\<rparr>) initial_context
       = Returned initial_context"
  using CopyBufferCpuToGpu_refuses [of "buffer_copy_example 0" initial_context]
    CopyBufferCpuToGpu_refuses [of "(buffer_copy_example 16)\<lparr>cpuSourceBuffer := None\<rparr>" initial_context]
    CopyBufferCpuToGpu_refuses [of "(buffer_copy_example 16)\<lparr>gpuDestinationBuffer := None\<rparr>" initial_context]
  by (simp add: buffer_copy_example_def)

subsection \<open>The loop of \<^verbatim>\<open>BindVertexBuffers\<close>\<close>

lemma trace_TF_VERIFY: "trace (TF_VERIFY ok msg c) = trace c @ (if ok then [] else [VerifyFailed msg])"
  by (simp add: TF_VERIFY_def)

lemma bindings_TF_VERIFY [simp]: "bindings (TF_VERIFY ok msg c) = bindings c"
  by (simp add: TF_VERIFY_def)

lemma trace_glBindVertexBuffer [simp]:
  "trace (glBindVertexBuffer slot buf off stride c) = trace c @ [Native (GlBindVertexBuffer slot buf off stride)]"
  by (simp add: glBindVertexBuffer_def native_def)

lemma past_the_end_kept [simp]:
  "past_the_end (emit e c) = past_the_end c"
  "past_the_end (native k c) = past_the_end c"
  "past_the_end (set_bindings f c) = past_the_end c"
  "past_the_end (TF_VERIFY ok msg c) = past_the_end c"
  "past_the_end (glBindVertexBuffer slot buf off stride c) = past_the_end c"
  by (simp_all add: emit_def native_def set_bindings_def TF_VERIFY_def glBindVertexBuffer_def)

lemma vector_read_effect:
  "fst (vector_read v i c) = (if i < length v then v ! i else past_the_end c i)"
  "trace (snd (vector_read v i c)) = trace c @ (if i < length v then [] else [OutOfRangeRead i])"
  "bindings (snd (vector_read v i c)) = bindings c"
  "past_the_end (snd (vector_read v i c)) = past_the_end c"
  by (simp_all add: vector_read_def)

text \<open>One step of the loop on a handle that is not null.\<close>

lemma BindVertexBuffers_loop_step:
  "\<exists>c'. BindVertexBuffers_loop firstBinding (Some buf # rest) byteOffsets i c
        = BindVertexBuffers_loop firstBinding rest byteOffsets (Suc i) c'
      \<and> trace c' = trace c @ bound_events (past_the_end c) firstBinding [buf] byteOffsets i
      \<and> past_the_end c' = past_the_end c
      \<and> bindings c' = (bindings c)\<lparr>vertex_buffers := (vertex_buffers (bindings c))
           (firstBinding + word_of_nat i \<mapsto>
              (bufferId buf, if i < length byteOffsets then byteOffsets ! i else past_the_end c i,
               vertexStride (bufferDesc buf)))\<rparr>"
proof -
  let ?c1 = "TF_VERIFY (HgiBufferUsageVertex \<in> set (buf_usage (bufferDesc buf)))
               ''desc.usage & HgiBufferUsageVertex'' c"
  let ?c' = "glBindVertexBuffer (firstBinding + word_of_nat i) (bufferId buf)
               (fst (vector_read byteOffsets i ?c1)) (vertexStride (bufferDesc buf))
               (snd (vector_read byteOffsets i ?c1))"
  have "BindVertexBuffers_loop firstBinding (Some buf # rest) byteOffsets i c
        = BindVertexBuffers_loop firstBinding rest byteOffsets (Suc i) ?c'"
    by (simp add: Let_def split: prod.split)
  moreover have "trace ?c' = trace c @ bound_events (past_the_end c) firstBinding [buf] byteOffsets i"
    by (simp add: vector_read_effect trace_TF_VERIFY)
  moreover have "past_the_end ?c' = past_the_end c"
    by (simp add: vector_read_effect)
  moreover have "bindings ?c' = (bindings c)\<lparr>vertex_buffers := (vertex_buffers (bindings c))
           (firstBinding + word_of_nat i \<mapsto>
              (bufferId buf, if i < length byteOffsets then byteOffsets ! i else past_the_end c i,
               vertexStride (bufferDesc buf)))\<rparr>"
    by (simp add: vector_read_effect glBindVertexBuffer_def native_def set_bindings_def emit_def)
  ultimately show ?thesis by blast
qed

lemma bound_events_Cons:
  "bound_events beyond firstBinding (buf # bufs) byteOffsets i
   = bound_events beyond firstBinding [buf] byteOffsets i
     @ bound_events beyond firstBinding bufs byteOffsets (Suc i)"
  by simp

lemma BindVertexBuffers_loop_prefix:
  "\<exists>c'. BindVertexBuffers_loop firstBinding (map Some pre @ rest) byteOffsets i c
        = BindVertexBuffers_loop firstBinding rest byteOffsets (i + length pre) c'
      \<and> trace c' = trace c @ bound_events (past_the_end c) firstBinding pre byteOffsets i
      \<and> past_the_end c' = past_the_end c"
proof (induction pre arbitrary: i c)
  case Nil
  show ?case by (rule exI [of _ c]) simp
next
  case (Cons buf pre)
  obtain c1 where c1:
    "BindVertexBuffers_loop firstBinding (Some buf # (map Some pre @ rest)) byteOffsets i c
       = BindVertexBuffers_loop firstBinding (map Some pre @ rest) byteOffsets (Suc i) c1"
    "trace c1 = trace c @ bound_events (past_the_end c) firstBinding [buf] byteOffsets i"
    "past_the_end c1 = past_the_end c"
    using BindVertexBuffers_loop_step [of firstBinding buf "map Some pre @ rest" byteOffsets i c]
    by blast
  obtain c' where c':
    "BindVertexBuffers_loop firstBinding (map Some pre @ rest) byteOffsets (Suc i) c1
       = BindVertexBuffers_loop firstBinding rest byteOffsets (Suc i + length pre) c'"
    "trace c' = trace c1 @ bound_events (past_the_end c1) firstBinding pre byteOffsets (Suc i)"
    "past_the_end c' = past_the_end c1"
    using Cons.IH [of "Suc i" c1] by blast
  have "trace c' = trace c @ bound_events (past_the_end c) firstBinding (buf # pre) byteOffsets i"
    using c1(2,3) c'(2) bound_events_Cons [of "past_the_end c" firstBinding buf pre byteOffsets i]
    by simp
  with c1(1,3) c'(1,3) show ?case
    by (intro exI [of _ c']) simp
qed

lemma native_calls_append [simp]: "native_calls (es @ fs) = native_calls es @ native_calls fs"
  by (induction es rule: native_calls.induct) simp_all

lemma native_calls_bound_events:
  "native_calls (bound_events beyond firstBinding bufs byteOffsets i)
   = map (\<lambda>j. GlBindVertexBuffer (firstBinding + word_of_nat (i + j)) (bufferId (bufs ! j))
            (if i + j < length byteOffsets then byteOffsets ! (i + j) else beyond (i + j))
            (vertexStride (bufferDesc (bufs ! j)))) [0..<length bufs]"
proof (induction bufs arbitrary: i)
  case Nil
  then show ?case by simp
next
  case (Cons buf bufs)
  have "[0..<length (buf # bufs)] = 0 # map Suc [0..<length bufs]"
    by (simp add: upt_conv_Cons map_Suc_upt del: upt_Suc)
  then show ?case
    using Cons.IH [of "Suc i"] by (simp add: o_def del: upt_Suc)
qed

lemma OutOfRangeRead_bound_events:
  "j < length bufs \<Longrightarrow> length byteOffsets \<le> i + j \<Longrightarrow>
   OutOfRangeRead (i + j) \<in> set (bound_events beyond firstBinding bufs byteOffsets i)"
proof (induction bufs arbitrary: i j)
  case Nil
  then show ?case by simp
next
  case (Cons buf bufs)
  show ?case
  proof (cases j)
    case 0
    with Cons.prems show ?thesis by simp
  next
    case (Suc k)
    with Cons.prems Cons.IH [of k "Suc i"] show ?thesis by simp
  qed
qed

lemma issued_Faulted_append [simp]: "trace c' = trace c @ es \<Longrightarrow> issued c (Faulted f c') = es"
  by (simp add: issued_def result_context_def)

text \<open>With no null handle the op binds every buffer, whatever the number of offsets, polls
  and returns.\<close>

lemma BindVertexBuffers_all:
  "\<exists>c'. BindVertexBuffers firstBinding (map Some bufs) byteOffsets c = Returned c'
     \<and> trace c' = trace c
         @ (if length byteOffsets = length bufs then []
            else [VerifyFailed ''byteOffsets.size() == vertexBuffers.size()'',
                  VerifyFailed ''byteOffsets.size() == vertexBuffers.size()''])
         @ bound_events (past_the_end c) firstBinding bufs byteOffsets 0 @ [PostPendingGLErrors]"
proof -
  let ?c2 = "TF_VERIFY (length byteOffsets = length (map Some bufs))
                 ''byteOffsets.size() == vertexBuffers.size()''
             (TF_VERIFY (length byteOffsets = length (map Some bufs))
                 ''byteOffsets.size() == vertexBuffers.size()'' c)"
  from BindVertexBuffers_loop_prefix [of firstBinding bufs "[]" byteOffsets 0 ?c2]
  obtain c' where c': "BindVertexBuffers_loop firstBinding (map Some bufs) byteOffsets 0 ?c2 = Returned c'"
    "trace c' = trace ?c2 @ bound_events (past_the_end c) firstBinding bufs byteOffsets 0"
    by auto
  then show ?thesis
    by (simp add: BindVertexBuffers_def Let_def trace_TF_VERIFY HGIGL_POST_PENDING_GL_ERRORS_def)
qed

text \<open>At the first null handle the op stops, having bound the buffers before it.\<close>

lemma BindVertexBuffers_null_handle:
  "\<exists>c'. BindVertexBuffers firstBinding (map Some pre @ None # rest) byteOffsets c
       = Faulted NullDereference c'
     \<and> trace c' = trace c
         @ (if length byteOffsets = Suc (length pre + length rest) then []
            else [VerifyFailed ''byteOffsets.size() == vertexBuffers.size()'',
                  VerifyFailed ''byteOffsets.size() == vertexBuffers.size()''])
         @ bound_events (past_the_end c) firstBinding pre byteOffsets 0"
proof -
  let ?vbs = "map Some pre @ None # rest"
  let ?c2 = "TF_VERIFY (length byteOffsets = length ?vbs)
                 ''byteOffsets.size() == vertexBuffers.size()''
             (TF_VERIFY (length byteOffsets = length ?vbs)
                 ''byteOffsets.size() == vertexBuffers.size()'' c)"
  from BindVertexBuffers_loop_prefix [of firstBinding pre "None # rest" byteOffsets 0 ?c2]
  obtain c' where c': "BindVertexBuffers_loop firstBinding ?vbs byteOffsets 0 ?c2
       = BindVertexBuffers_loop firstBinding (None # rest) byteOffsets (length pre) c'"
    "trace c' = trace ?c2 @ bound_events (past_the_end c) firstBinding pre byteOffsets 0"
    by auto
  then show ?thesis
    by (simp add: BindVertexBuffers_def Let_def trace_TF_VERIFY)
qed

lemma BindVertexBuffers_loop_trace:
  "\<exists>es. trace (result_context (BindVertexBuffers_loop firstBinding vbs byteOffsets i c)) = trace c @ es"
proof (induction vbs arbitrary: i c)
  case Nil
  show ?case by (simp add: result_context_def)
next
  case (Cons h vbs)
  show ?case
  proof (cases h)
    case None
    then show ?thesis by (simp add: result_context_def)
  next
    case (Some buf)
    obtain c1 where c1:
      "BindVertexBuffers_loop firstBinding (Some buf # vbs) byteOffsets i c
         = BindVertexBuffers_loop firstBinding vbs byteOffsets (Suc i) c1"
      "trace c1 = trace c @ bound_events (past_the_end c) firstBinding [buf] byteOffsets i"
      using BindVertexBuffers_loop_step [of firstBinding buf vbs byteOffsets i c] by blast
    from Cons.IH [of "Suc i" c1] obtain es where
      "trace (result_context (BindVertexBuffers_loop firstBinding vbs byteOffsets (Suc i) c1))
       = trace c1 @ es" by blast
    with Some c1 show ?thesis by simp
  qed
qed

lemma BindVertexBuffers_mismatch:
  assumes "length byteOffsets \<noteq> length vertexBuffers"
  shows "VerifyFailed ''byteOffsets.size() == vertexBuffers.size()''
     \<in> set (issued c (BindVertexBuffers firstBinding vertexBuffers byteOffsets c))"
proof -
  let ?c2 = "TF_VERIFY (length byteOffsets = length vertexBuffers)
                 ''byteOffsets.size() == vertexBuffers.size()''
             (TF_VERIFY (length byteOffsets = length vertexBuffers)
                 ''byteOffsets.size() == vertexBuffers.size()'' c)"
  obtain es where es:
    "trace (result_context (BindVertexBuffers_loop firstBinding vertexBuffers byteOffsets 0 ?c2))
     = trace ?c2 @ es"
    using BindVertexBuffers_loop_trace by blast
  show ?thesis
  proof (cases "BindVertexBuffers_loop firstBinding vertexBuffers byteOffsets 0 ?c2")
    case (Returned c3)
    with es assms show ?thesis
      by (simp add: BindVertexBuffers_def Let_def trace_TF_VERIFY issued_def result_context_def
          HGIGL_POST_PENDING_GL_ERRORS_def)
  next
    case (Faulted f c3)
    with es assms show ?thesis
      by (simp add: BindVertexBuffers_def Let_def trace_TF_VERIFY issued_def result_context_def)
  qed
qed

lemma unat_slot:
  "unat (firstBinding :: uint32) + i < 2 ^ 32 \<Longrightarrow> unat (firstBinding + word_of_nat i) = unat firstBinding + i"
  by (simp add: unat_word_ariths unat_of_nat)

lemma Some_prefix:
  "\<forall>h \<in> set hs. h \<noteq> None \<Longrightarrow> hs = map Some (map the hs)"
  by (induction hs) auto

text \<open>
  C6. Given \<open>N\<close> buffer handles and \<open>N\<close> byte offsets, \<^verbatim>\<open>BindVertexBuffers\<close> returns and its
  native calls are exactly the \<open>N\<close> calls \<^verbatim>\<open>glBindVertexBuffer\<close>, in order, the \<open>i\<close>-th at the
  slot \<^verbatim>\<open>firstBinding + i\<close> (a \<^verbatim>\<open>GLuint\<close>; the number \<open>firstBinding + i\<close> as long as that is
  below \<open>2^32\<close>) with the \<open>i\<close>-th buffer's id, the \<open>i\<close>-th offset and that buffer's declared
  vertex stride. When the number of offsets differs from the number of handles, the failed
  verification of the lengths is logged.
\<close>

theorem BindVertexBuffers_consecutive_slots:
  "(length byteOffsets = length buffers \<longrightarrow>
      returns (BindVertexBuffers firstBinding (map Some buffers) byteOffsets c)
      \<and> native_calls (issued c (BindVertexBuffers firstBinding (map Some buffers) byteOffsets c))
        = map (\<lambda>i. GlBindVertexBuffer (firstBinding + word_of_nat i) (bufferId (buffers ! i))
                 (byteOffsets ! i) (vertexStride (bufferDesc (buffers ! i)))) [0..<length buffers])
   \<and> (\<forall>i. unat firstBinding + i < 2 ^ 32 \<longrightarrow> unat (firstBinding + word_of_nat i) = unat firstBinding + i)
   \<and> (length byteOffsets \<noteq> length vertexBuffers \<longrightarrow>
        VerifyFailed ''byteOffsets.size() == vertexBuffers.size()''
          \<in> set (issued c (BindVertexBuffers firstBinding vertexBuffers byteOffsets c)))"
proof (intro conjI impI allI)
  assume len: "length byteOffsets = length buffers"
  from BindVertexBuffers_all [of firstBinding buffers byteOffsets c] len
  obtain c' where c': "BindVertexBuffers firstBinding (map Some buffers) byteOffsets c = Returned c'"
    "trace c' = trace c @ bound_events (past_the_end c) firstBinding buffers byteOffsets 0
       @ [PostPendingGLErrors]"
    by auto
  show "returns (BindVertexBuffers firstBinding (map Some buffers) byteOffsets c)"
    using c' by (simp add: returns_def)
  have "map (\<lambda>j. GlBindVertexBuffer (firstBinding + word_of_nat (0 + j)) (bufferId (buffers ! j))
            (if 0 + j < length byteOffsets then byteOffsets ! (0 + j) else past_the_end c (0 + j))
            (vertexStride (bufferDesc (buffers ! j)))) [0..<length buffers]
      = map (\<lambda>i. GlBindVertexBuffer (firstBinding + word_of_nat i) (bufferId (buffers ! i))
                 (byteOffsets ! i) (vertexStride (bufferDesc (buffers ! i)))) [0..<length buffers]"
    using len by (intro map_cong) simp_all
  then show "native_calls (issued c (BindVertexBuffers firstBinding (map Some buffers) byteOffsets c))
        = map (\<lambda>i. GlBindVertexBuffer (firstBinding + word_of_nat i) (bufferId (buffers ! i))
                 (byteOffsets ! i) (vertexStride (bufferDesc (buffers ! i)))) [0..<length buffers]"
    using c' native_calls_bound_events [of "past_the_end c" firstBinding buffers byteOffsets 0]
    by simp
next
  fix i assume "unat firstBinding + i < 2 ^ 32"
  then show "unat (firstBinding + word_of_nat i) = unat firstBinding + i"
    by (rule unat_slot)
next
  assume "length byteOffsets \<noteq> length vertexBuffers"
  then show "VerifyFailed ''byteOffsets.size() == vertexBuffers.size()''
          \<in> set (issued c (BindVertexBuffers firstBinding vertexBuffers byteOffsets c))"
    by (rule BindVertexBuffers_mismatch)
qed

text \<open>
  C10. When \<^verbatim>\<open>byteOffsets\<close> is shorter than \<^verbatim>\<open>vertexBuffers\<close> and no handle is null, the
  verification of the sizes fails, which is logged (once per \<^verbatim>\<open>TF_VERIFY\<close>, and the source
  has it twice), and then the loop still iterates over every buffer: the op returns, what it
  leaves in the trace is the two failures, the events of the loop over all the buffers and the
  poll, its native calls are one \<^verbatim>\<open>glBindVertexBuffer\<close> per buffer, and for every index from
  the size of \<^verbatim>\<open>byteOffsets\<close> on the offset it passes is read past the end of
  \<^verbatim>\<open>byteOffsets\<close>. A null handle in the list, wherever it stands, is reached and dereferenced
  after the buffers before it have been bound; \<^verbatim>\<open>BindPipeline\<close> and \<^verbatim>\<open>BindResources\<close> on a
  null handle return with the context untouched.
\<close>

theorem BindVertexBuffers_unchecked:
  "(length byteOffsets < length buffers \<longrightarrow>
      returns (BindVertexBuffers firstBinding (map Some buffers) byteOffsets c)
      \<and> issued c (BindVertexBuffers firstBinding (map Some buffers) byteOffsets c)
        = [VerifyFailed ''byteOffsets.size() == vertexBuffers.size()'',
           VerifyFailed ''byteOffsets.size() == vertexBuffers.size()'']
          @ bound_events (past_the_end c) firstBinding buffers byteOffsets 0
          @ [PostPendingGLErrors]
      \<and> native_calls (issued c (BindVertexBuffers firstBinding (map Some buffers) byteOffsets c))
        = map (\<lambda>i. GlBindVertexBuffer (firstBinding + word_of_nat i) (bufferId (buffers ! i))
                 (if i < length byteOffsets then byteOffsets ! i else past_the_end c i)
                 (vertexStride (bufferDesc (buffers ! i)))) [0..<length buffers]
      \<and> (\<forall>i. length byteOffsets \<le> i \<and> i < length buffers \<longrightarrow>
            OutOfRangeRead i
              \<in> set (issued c (BindVertexBuffers firstBinding (map Some buffers) byteOffsets c))))
   \<and> (i < length vertexBuffers \<and> vertexBuffers ! i = None
        \<and> (\<forall>h \<in> set (take i vertexBuffers). h \<noteq> None) \<longrightarrow>
      (\<exists>c'. BindVertexBuffers firstBinding vertexBuffers byteOffsets c = Faulted NullDereference c'
         \<and> length (native_calls (issued c (Faulted NullDereference c'))) = i))
   \<and> BindPipeline None c = Returned c
   \<and> BindResources None c = Returned c"
proof (intro conjI impI allI)
  assume lt: "length byteOffsets < length buffers"
  from BindVertexBuffers_all [of firstBinding buffers byteOffsets c] lt
  obtain c' where c': "BindVertexBuffers firstBinding (map Some buffers) byteOffsets c = Returned c'"
    "trace c' = trace c
       @ [VerifyFailed ''byteOffsets.size() == vertexBuffers.size()'',
          VerifyFailed ''byteOffsets.size() == vertexBuffers.size()'']
       @ bound_events (past_the_end c) firstBinding buffers byteOffsets 0 @ [PostPendingGLErrors]"
    by auto
  show "returns (BindVertexBuffers firstBinding (map Some buffers) byteOffsets c)"
    using c' by (simp add: returns_def)
  show "issued c (BindVertexBuffers firstBinding (map Some buffers) byteOffsets c)
        = [VerifyFailed ''byteOffsets.size() == vertexBuffers.size()'',
           VerifyFailed ''byteOffsets.size() == vertexBuffers.size()'']
          @ bound_events (past_the_end c) firstBinding buffers byteOffsets 0
          @ [PostPendingGLErrors]"
    using c' by simp
  show "native_calls (issued c (BindVertexBuffers firstBinding (map Some buffers) byteOffsets c))
        = map (\<lambda>i. GlBindVertexBuffer (firstBinding + word_of_nat i) (bufferId (buffers ! i))
                 (if i < length byteOffsets then byteOffsets ! i else past_the_end c i)
                 (vertexStride (bufferDesc (buffers ! i)))) [0..<length buffers]"
    using c' native_calls_bound_events [of "past_the_end c" firstBinding buffers byteOffsets 0]
    by simp
  fix i assume i: "length byteOffsets \<le> i \<and> i < length buffers"
  then have "OutOfRangeRead (0 + i) \<in> set (bound_events (past_the_end c) firstBinding buffers byteOffsets 0)"
    by (intro OutOfRangeRead_bound_events) simp_all
  then show "OutOfRangeRead i
      \<in> set (issued c (BindVertexBuffers firstBinding (map Some buffers) byteOffsets c))"
    using c' by simp
next
  assume a: "i < length vertexBuffers \<and> vertexBuffers ! i = None
        \<and> (\<forall>h \<in> set (take i vertexBuffers). h \<noteq> None)"
  let ?pre = "map the (take i vertexBuffers)"
  from a have pre: "take i vertexBuffers = map Some ?pre" by (intro Some_prefix) simp
  from a pre have vbs: "vertexBuffers = map Some ?pre @ None # drop (Suc i) vertexBuffers"
    using id_take_nth_drop [of i vertexBuffers] by simp
  from a have len: "length ?pre = i" by simp
  from BindVertexBuffers_null_handle [of firstBinding ?pre "drop (Suc i) vertexBuffers" byteOffsets c]
  obtain c' where c':
    "BindVertexBuffers firstBinding (map Some ?pre @ None # drop (Suc i) vertexBuffers) byteOffsets c
       = Faulted NullDereference c'"
    "trace c' = trace c
         @ (if length byteOffsets = Suc (length ?pre + length (drop (Suc i) vertexBuffers)) then []
            else [VerifyFailed ''byteOffsets.size() == vertexBuffers.size()'',
                  VerifyFailed ''byteOffsets.size() == vertexBuffers.size()''])
         @ bound_events (past_the_end c) firstBinding ?pre byteOffsets 0"
    by blast
  have "length (native_calls (issued c (Faulted NullDereference c'))) = i"
    using c'(2) len by (simp add: native_calls_bound_events)
  with c'(1) vbs
  show "\<exists>c'. BindVertexBuffers firstBinding vertexBuffers byteOffsets c = Faulted NullDereference c'
         \<and> length (native_calls (issued c (Faulted NullDereference c'))) = i"
    by metis
next
  show "BindPipeline None c = Returned c" by (simp add: BindPipeline_def)
  show "BindResources None c = Returned c" by (simp add: BindResources_def)
qed

theorem BindVertexBuffers_consecutive_slots_witness:
  "returns (BindVertexBuffers 3 [Some (vertex_buffer_example 12), Some (vertex_buffer_example 16)]
      [0, 64] initial_context)
   \<and> native_calls (issued initial_context
        (BindVertexBuffers 3 [Some (vertex_buffer_example 12), Some (vertex_buffer_example 16)]
           [0, 64] initial_context))
     = [GlBindVertexBuffer 3 7 0 12, GlBindVertexBuffer 4 7 64 16]
   \<and> VerifyFailed ''byteOffsets.size() == vertexBuffers.size()''
       \<in> set (issued initial_context (BindVertexBuffers 3 [] [0, 64] initial_context))"
  using BindVertexBuffers_consecutive_slots
    [where byteOffsets = "[0, 64]" and firstBinding = 3 and c = initial_context
       and buffers = "[vertex_buffer_example 12, vertex_buffer_example 16]" and vertexBuffers = "[]"]
  by (simp add: vertex_buffer_example_def upt_conv_Cons)

theorem BindVertexBuffers_unchecked_witness:
  "returns (BindVertexBuffers 0
      [Some (vertex_buffer_example 12), Some (vertex_buffer_example 16), Some (vertex_buffer_example 20)]
      [64] initial_context)
   \<and> native_calls (issued initial_context (BindVertexBuffers 0
        [Some (vertex_buffer_example 12), Some (vertex_buffer_example 16), Some (vertex_buffer_example 20)]
        [64] initial_context))
     = [GlBindVertexBuffer 0 7 64 12, GlBindVertexBuffer 1 7 255 16, GlBindVertexBuffer 2 7 255 20]
   \<and> issued initial_context (BindVertexBuffers 0
        [Some (vertex_buffer_example 12), Some (vertex_buffer_example 16), Some (vertex_buffer_example 20)]
        [64] initial_context)
     = [VerifyFailed ''byteOffsets.size() == vertexBuffers.size()'',
        VerifyFailed ''byteOffsets.size() == vertexBuffers.size()'',
        Native (GlBindVertexBuffer 0 7 64 12),
        OutOfRangeRead 1, Native (GlBindVertexBuffer 1 7 255 16),
        OutOfRangeRead 2, Native (GlBindVertexBuffer 2 7 255 20),
        PostPendingGLErrors]
   \<and> (\<exists>c'. BindVertexBuffers 0 [Some (vertex_buffer_example 12), Some (vertex_buffer_example 16), None]
            [64] initial_context = Faulted NullDereference c'
        \<and> length (native_calls (issued initial_context (Faulted NullDereference c'))) = 2)
   \<and> BindPipeline None initial_context = Returned initial_context"
proof -
  have p: "past_the_end initial_context = (\<lambda>_. 255)"
    by (simp add: initial_context_def)
  have h: "(2::nat) < length [Some (vertex_buffer_example 12), Some (vertex_buffer_example 16), None]
      \<and> [Some (vertex_buffer_example 12), Some (vertex_buffer_example 16), None] ! 2 = None
      \<and> (\<forall>h \<in> set (take 2 [Some (vertex_buffer_example 12), Some (vertex_buffer_example 16), None]).
            h \<noteq> None)"
    by (simp add: numeral_2_eq_2)
  show ?thesis
    using p h
      BindVertexBuffers_unchecked
        [where byteOffsets = "[64]" and firstBinding = 0 and c = initial_context and i = 2
          and buffers = "[vertex_buffer_example 12, vertex_buffer_example 16, vertex_buffer_example 20]"
          and vertexBuffers = "[Some (vertex_buffer_example 12), Some (vertex_buffer_example 16), None]"]
    by (simp add: vertex_buffer_example_def upt_conv_Cons)
qed

subsection \<open>Blending and clears in \<^verbatim>\<open>BindFramebufferOp\<close>\<close>

lemma trace_native [simp]: "trace (native k c) = trace c @ [Native k]"
  by (simp add: native_def)

lemma bindings_native [simp]: "bindings (native k c) = bindings c"
  by (simp add: native_def)

lemma framebuffers_native [simp]: "framebuffers (native k c) = framebuffers c"
  by (simp add: native_def)

lemma BindFramebufferOp_loop_effect:
  "\<exists>c'. BindFramebufferOp_loop as i b c = (b \<or> (\<exists>a \<in> set as. blendEnabled a), c')
      \<and> trace c' = trace c @ attachment_events as i"
proof (induction as arbitrary: i b c)
  case Nil
  show ?case by simp
next
  case (Cons a as)
  let ?c1 = "if loadOp a = HgiAttachmentLoadOpClear
             then glClearBufferfv GL_COLOR (word_of_nat i) (clearValue a) c else c"
  let ?c3 = "glBlendEquationSeparatei (word_of_nat i) (colorBlendOp a) (alphaBlendOp a)
      (glBlendFuncSeparatei (word_of_nat i) (srcColorBlendFactor a) (dstColorBlendFactor a)
        (srcAlphaBlendFactor a) (dstAlphaBlendFactor a) ?c1)"
  from Cons.IH [of "Suc i" "b \<or> blendEnabled a" ?c3] obtain c' where
    "BindFramebufferOp_loop as (Suc i) (b \<or> blendEnabled a) ?c3
       = ((b \<or> blendEnabled a) \<or> (\<exists>a \<in> set as. blendEnabled a), c')"
    "trace c' = trace ?c3 @ attachment_events as (Suc i)"
    by blast
  then show ?case
    by (auto simp: Let_def glBlendEquationSeparatei_def glBlendFuncSeparatei_def glClearBufferfv_def)
qed

lemma clear_in_attachment_events:
  "j < length as \<Longrightarrow> loadOp (as ! j) = HgiAttachmentLoadOpClear \<Longrightarrow>
   Native (GlClearBufferfv GL_COLOR (word_of_nat (i + j)) (clearValue (as ! j)))
     \<in> set (attachment_events as i)"
proof (induction as arbitrary: i j)
  case Nil
  then show ?case by simp
next
  case (Cons a as)
  show ?case
  proof (cases j)
    case 0
    with Cons.prems show ?thesis by simp
  next
    case (Suc k)
    with Cons.prems Cons.IH [of k "Suc i"] show ?thesis by simp
  qed
qed

lemma blend_cap_not_in_attachment_events:
  "Native (GlEnable cap) \<notin> set (attachment_events as i)
   \<and> Native (GlDisable cap) \<notin> set (attachment_events as i)"
  by (induction as arbitrary: i) simp_all

text \<open>
  C7. For every encoder descriptor (and every device), \<^verbatim>\<open>BindFramebufferOp\<close> returns; after
  the framebuffer is acquired it issues \<^verbatim>\<open>glEnable(GL_BLEND)\<close> if and only if some colour
  attachment has \<^verbatim>\<open>blendEnabled\<close>, and \<^verbatim>\<open>glDisable(GL_BLEND)\<close> otherwise, so that blending is
  on afterwards exactly in the first case; and for each colour attachment \<open>i\<close> whose load op
  is \<^verbatim>\<open>HgiAttachmentLoadOpClear\<close> it issues \<^verbatim>\<open>glClearBufferfv(GL_COLOR, i, clearValue)\<close> with
  that attachment's clear value.
\<close>

theorem BindFramebufferOp_blend_and_clear:
  "\<exists>c' es. BindFramebufferOp device desc c = Returned c'
     \<and> trace c' = trace (snd (device desc (TF_VERIFY (HasAttachments desc) ''Missing attachments'' c))) @ es
     \<and> blend (bindings c') = (\<exists>a \<in> set (colorAttachmentDescs desc). blendEnabled a)
     \<and> (Native (GlEnable GL_BLEND) \<in> set es) = (\<exists>a \<in> set (colorAttachmentDescs desc). blendEnabled a)
     \<and> (Native (GlDisable GL_BLEND) \<in> set es) = (\<not> (\<exists>a \<in> set (colorAttachmentDescs desc). blendEnabled a))
     \<and> (\<forall>i < length (colorAttachmentDescs desc).
           loadOp (colorAttachmentDescs desc ! i) = HgiAttachmentLoadOpClear \<longrightarrow>
           Native (GlClearBufferfv GL_COLOR (word_of_nat i) (clearValue (colorAttachmentDescs desc ! i)))
             \<in> set es)"
proof -
  let ?c1 = "TF_VERIFY (HasAttachments desc) ''Missing attachments'' c"
  obtain framebuffer c2 where dev: "device desc ?c1 = (framebuffer, c2)" by (cases "device desc ?c1")
  let ?c3 = "glBindFramebuffer GL_FRAMEBUFFER framebuffer c2"
  let ?any = "\<exists>a \<in> set (colorAttachmentDescs desc). blendEnabled a"
  obtain c4 where loop: "BindFramebufferOp_loop (colorAttachmentDescs desc) 0 False ?c3 = (?any, c4)"
    and tr4: "trace c4 = trace ?c3 @ attachment_events (colorAttachmentDescs desc) 0"
    using BindFramebufferOp_loop_effect [of "colorAttachmentDescs desc" 0 False ?c3] by auto
  let ?c5 = "if depthTexture desc \<noteq> None \<and> loadOp (depthAttachmentDesc desc) = HgiAttachmentLoadOpClear
             then glClearBufferfv GL_DEPTH 0 (clearValue (depthAttachmentDesc desc)) c4 else c4"
  let ?c6 = "if ?any then glEnable GL_BLEND ?c5 else glDisable GL_BLEND ?c5"
  let ?es = "Native (GlBindFramebuffer GL_FRAMEBUFFER framebuffer)
      # attachment_events (colorAttachmentDescs desc) 0
      @ (if depthTexture desc \<noteq> None \<and> loadOp (depthAttachmentDesc desc) = HgiAttachmentLoadOpClear
         then [Native (GlClearBufferfv GL_DEPTH 0 (clearValue (depthAttachmentDesc desc)))] else [])
      @ [Native (if ?any then GlEnable GL_BLEND else GlDisable GL_BLEND), PostPendingGLErrors]"
  have res: "BindFramebufferOp device desc c = Returned (HGIGL_POST_PENDING_GL_ERRORS ?c6)"
    using dev loop by (simp add: BindFramebufferOp_def Let_def)
  have tr: "trace (HGIGL_POST_PENDING_GL_ERRORS ?c6) = trace c2 @ ?es"
    using tr4
    by (simp add: HGIGL_POST_PENDING_GL_ERRORS_def glEnable_def glDisable_def glClearBufferfv_def
        glBindFramebuffer_def)
  have bl: "blend (bindings (HGIGL_POST_PENDING_GL_ERRORS ?c6)) = ?any"
    by (simp add: HGIGL_POST_PENDING_GL_ERRORS_def glEnable_def glDisable_def set_cap_def)
  have en: "(Native (GlEnable GL_BLEND) \<in> set ?es) = ?any"
    using blend_cap_not_in_attachment_events [of GL_BLEND "colorAttachmentDescs desc" 0] by simp
  have dis: "(Native (GlDisable GL_BLEND) \<in> set ?es) = (\<not> ?any)"
    using blend_cap_not_in_attachment_events [of GL_BLEND "colorAttachmentDescs desc" 0] by simp
  have cl: "\<forall>i < length (colorAttachmentDescs desc).
           loadOp (colorAttachmentDescs desc ! i) = HgiAttachmentLoadOpClear \<longrightarrow>
           Native (GlClearBufferfv GL_COLOR (word_of_nat i) (clearValue (colorAttachmentDescs desc ! i)))
             \<in> set ?es"
    using clear_in_attachment_events [of _ "colorAttachmentDescs desc" 0] by simp
  from res tr bl en dis cl dev show ?thesis
    by (intro exI [of _ "HGIGL_POST_PENDING_GL_ERRORS ?c6"] exI [of _ ?es]) simp
qed

theorem BindFramebufferOp_blend_and_clear_witness:
  "\<exists>c' es. BindFramebufferOp device_example encoder_desc_example initial_context = Returned c'
     \<and> trace c' = es
     \<and> blend (bindings c')
     \<and> Native (GlEnable GL_BLEND) \<in> set es
     \<and> Native (GlDisable GL_BLEND) \<notin> set es
     \<and> Native (GlClearBufferfv GL_COLOR 0 (0, 0, 0, 1)) \<in> set es"
  using BindFramebufferOp_blend_and_clear
    [where device = device_example and desc = encoder_desc_example and c = initial_context]
  by (auto simp: encoder_desc_example_def attachment_example_def device_example_def
      initial_context_def TF_VERIFY_def HasAttachments_def)

subsection \<open>The two paths of \<^verbatim>\<open>ResolveImage\<close>\<close>

lemma max_le_fold_max: "a \<le> fold max xs (a::nat)"
  by (induction xs arbitrary: a) (auto intro: order_trans [OF max.cobounded2])

lemma le_fold_max: "x \<in> set xs \<Longrightarrow> x \<le> fold max xs (a::nat)"
proof (induction xs arbitrary: a)
  case Nil
  then show ?case by simp
next
  case (Cons y ys)
  then show ?case
    using max_le_fold_max [of "max y a" ys] by auto
qed

lemma unused_framebuffer_name_gt:
  assumes "x = read_framebuffer (bindings c) \<or> x = draw_framebuffer (bindings c) \<or> x \<in> set (framebuffers c)"
  shows "x < unused_framebuffer_name c"
proof -
  from assms have "x \<in> set (read_framebuffer (bindings c) # draw_framebuffer (bindings c) # framebuffers c)"
    by auto
  then have "x \<le> fold max (read_framebuffer (bindings c) # draw_framebuffer (bindings c) # framebuffers c) 0"
    by (rule le_fold_max)
  then show ?thesis
    unfolding unused_framebuffer_name_def by (rule le_imp_less_Suc)
qed

lemma unused_framebuffer_name_fresh:
  "unused_framebuffer_name c \<notin> set (framebuffers c)"
  "unused_framebuffer_name c \<noteq> read_framebuffer (bindings c)"
  "unused_framebuffer_name c \<noteq> draw_framebuffer (bindings c)"
  using unused_framebuffer_name_gt [of "unused_framebuffer_name c" c]
  by auto

lemmas gl_defs =
  glPushDebugGroup_def glPopDebugGroup_def glMemoryBarrier_def glGetTextureSubImage_def
  glNamedBufferSubData_def glDeleteFramebuffers_def glIsTexture_def
  glNamedFramebufferDrawBuffers_def glNamedFramebufferTexture_def
  glCheckNamedFramebufferStatus_def glBindFramebuffer_def glBlitFramebuffer_def glViewport_def
  glScissor_def glBindVertexBuffer_def glBindBuffer_def glDrawElementsInstancedBaseVertex_def
  glClearBufferfv_def glBlendFuncSeparatei_def glBlendEquationSeparatei_def glEnable_def
  glDisable_def glUseProgram_def glActiveTexture_def glBindTexture_def glUniform1i_def
  glVertexAttribPointer_def glEnableVertexAttribArray_def glDisableVertexAttribArray_def
  glDepthMask_def glStencilMask_def glDepthFunc_def glDrawArrays_def glGetIntegerv_def
  glGetBooleanv_def HGIGL_POST_PENDING_GL_ERRORS_def GLF_POST_PENDING_GL_ERRORS_def

lemma oracle_fields [simp]:
  "is_texture (emit e c) = is_texture c"
  "framebuffer_complete (emit e c) = framebuffer_complete c"
  "khr_debug (emit e c) = khr_debug c"
  "is_texture (native k c) = is_texture c"
  "framebuffer_complete (native k c) = framebuffer_complete c"
  "khr_debug (native k c) = khr_debug c"
  "is_texture (set_bindings f c) = is_texture c"
  "framebuffer_complete (set_bindings f c) = framebuffer_complete c"
  "khr_debug (set_bindings f c) = khr_debug c"
  "is_texture (TF_VERIFY ok msg c) = is_texture c"
  "framebuffer_complete (TF_VERIFY ok msg c) = framebuffer_complete c"
  "khr_debug (TF_VERIFY ok msg c) = khr_debug c"
  by (simp_all add: emit_def native_def set_bindings_def TF_VERIFY_def)

lemma framebuffers_TF_VERIFY [simp]: "framebuffers (TF_VERIFY ok msg c) = framebuffers c"
  by (simp add: TF_VERIFY_def)

lemma glCreateFramebuffers_effect:
  assumes "glCreateFramebuffers c = (n, c')"
  shows "n \<notin> set (framebuffers c)" "n \<noteq> read_framebuffer (bindings c)"
    "n \<noteq> draw_framebuffer (bindings c)" "bindings c' = bindings c"
    "framebuffers c' = n # framebuffers c" "trace c' = trace c @ [Native (GlCreateFramebuffers n)]"
  using assms unused_framebuffer_name_fresh [of c]
  by (auto simp: glCreateFramebuffers_def Let_def)

lemma bindings_ResolveImage_attach [simp]:
  "bindings (ResolveImage_attach depth rfb wfb ra wa c) = bindings c"
  by (simp add: ResolveImage_attach_def gl_defs)

lemma framebuffers_ResolveImage_attach [simp]:
  "framebuffers (ResolveImage_attach depth rfb wfb ra wa c) = framebuffers c"
  by (simp add: ResolveImage_attach_def gl_defs)

lemma trace_ResolveImage_attach:
  "\<exists>es. trace (ResolveImage_attach depth rfb wfb ra wa c) = trace c @ es"
  by (simp add: ResolveImage_attach_def gl_defs)

lemma oracles_ResolveImage_attach [simp]:
  "is_texture (ResolveImage_attach depth rfb wfb ra wa c) = is_texture c"
  "framebuffer_complete (ResolveImage_attach depth rfb wfb ra wa c) = framebuffer_complete c"
  by (simp_all add: ResolveImage_attach_def gl_defs)

text \<open>With both textures present \<^verbatim>\<open>ResolveImage\<close> returns with the bindings it found, the
  read and the draw framebuffer binding among them, with the framebuffer objects it found,
  its own two being deleted, and after polling the pending errors.\<close>

lemma ResolveImage_complete:
  assumes "source resolveOp = Some s" "destination resolveOp = Some d"
  shows "\<exists>c'. ResolveImage resolveOp c = Returned c'
     \<and> bindings c' = bindings c \<and> framebuffers c' = framebuffers c
     \<and> polls_at_end c (Returned c')"
proof -
  obtain n1 c1 where c1: "glCreateFramebuffers c = (n1, c1)" by (cases "glCreateFramebuffers c")
  obtain n2 c2 where c2: "glCreateFramebuffers c1 = (n2, c2)" by (cases "glCreateFramebuffers c1")
  note e1 = glCreateFramebuffers_effect [OF c1]
  note e2 = glCreateFramebuffers_effect [OF c2]
  from e1 e2 have neq: "n1 \<noteq> n2" "n2 \<noteq> n1" by auto
  from e1 e2 have fresh: "n1 \<notin> set (framebuffers c)" "n2 \<notin> set (framebuffers c)"
    "read_framebuffer (bindings c) \<noteq> n1" "read_framebuffer (bindings c) \<noteq> n2"
    "draw_framebuffer (bindings c) \<noteq> n1" "draw_framebuffer (bindings c) \<noteq> n2"
    by auto
  let ?depth = "HgiTextureUsageBitsDepthTarget \<in> set (usage resolveOp)"
  let ?c6 = "TF_VERIFY (is_texture c2 (textureId d)) ''Destination is not a texture''
      (native (GlIsTexture (textureId d))
        (TF_VERIFY (is_texture c2 (textureId s)) ''Source is not a texture''
          (native (GlIsTexture (textureId s)) c2)))"
  obtain es where es: "trace (ResolveImage_attach ?depth n1 n2 (textureId s) (textureId d) ?c6)
      = trace ?c6 @ es"
    using trace_ResolveImage_attach by blast
  show ?thesis
    using assms c1 c2 e1(4-6) e2(4-6) neq fresh es
    by (simp add: ResolveImage_def Let_def gl_defs polls_at_end_def issued_def result_context_def
        trace_TF_VERIFY)
qed

text \<open>With a texture missing it returns with the bindings it found and with two framebuffer
  objects more than it found.\<close>

lemma ResolveImage_early_return:
  assumes "source resolveOp = None \<or> destination resolveOp = None"
  shows "\<exists>n1 n2 c'. ResolveImage resolveOp c = Returned c'
     \<and> bindings c' = bindings c \<and> framebuffers c' = n2 # n1 # framebuffers c
     \<and> n1 \<notin> set (framebuffers c) \<and> n2 \<notin> set (framebuffers c) \<and> n1 \<noteq> n2
     \<and> trace c' = trace c @ [Native (GlCreateFramebuffers n1), Native (GlCreateFramebuffers n2),
          CodingError ''No textures provided for resolve'']"
proof -
  obtain n1 c1 where c1: "glCreateFramebuffers c = (n1, c1)" by (cases "glCreateFramebuffers c")
  obtain n2 c2 where c2: "glCreateFramebuffers c1 = (n2, c2)" by (cases "glCreateFramebuffers c1")
  note e1 = glCreateFramebuffers_effect [OF c1]
  note e2 = glCreateFramebuffers_effect [OF c2]
  from e1 e2 have neq: "n1 \<noteq> n2" by auto
  from e1 e2 have fresh: "n1 \<notin> set (framebuffers c)" "n2 \<notin> set (framebuffers c)" by auto
  show ?thesis
    using assms c1 c2 e1(4-6) e2(4-6) neq fresh
    by (auto simp: ResolveImage_def Let_def split: option.splits)
qed

subsection \<open>The binding state across an op\<close>

lemma bindings_BindVertexBuffers_loop:
  "(bindings (result_context (BindVertexBuffers_loop firstBinding vbs byteOffsets i c)))
      \<lparr>vertex_buffers := v\<rparr>
   = (bindings c)\<lparr>vertex_buffers := v\<rparr>"
proof (induction vbs arbitrary: i c)
  case Nil
  show ?case by (simp add: result_context_def)
next
  case (Cons h vbs)
  show ?case
  proof (cases h)
    case None
    then show ?thesis by (simp add: result_context_def)
  next
    case (Some buf)
    obtain c1 where c1:
      "BindVertexBuffers_loop firstBinding (Some buf # vbs) byteOffsets i c
         = BindVertexBuffers_loop firstBinding vbs byteOffsets (Suc i) c1"
      "bindings c1 = (bindings c)\<lparr>vertex_buffers := (vertex_buffers (bindings c))
           (firstBinding + word_of_nat i \<mapsto>
              (bufferId buf, if i < length byteOffsets then byteOffsets ! i else past_the_end c i,
               vertexStride (bufferDesc buf)))\<rparr>"
      using BindVertexBuffers_loop_step [of firstBinding buf vbs byteOffsets i c] by blast
    have "(bindings (result_context (BindVertexBuffers_loop firstBinding (h # vbs) byteOffsets i c)))
        \<lparr>vertex_buffers := v\<rparr>
      = (bindings (result_context (BindVertexBuffers_loop firstBinding vbs byteOffsets (Suc i) c1)))
        \<lparr>vertex_buffers := v\<rparr>"
      by (simp only: Some c1(1))
    also have "\<dots> = (bindings c1)\<lparr>vertex_buffers := v\<rparr>"
      by (rule Cons.IH)
    also have "\<dots> = (bindings c)\<lparr>vertex_buffers := v\<rparr>"
      by (simp add: c1(2))
    finally show ?thesis .
  qed
qed

text \<open>The bindings \<^verbatim>\<open>BindVertexBuffers\<close> ends with are those its loop ends with.\<close>

lemma bindings_HGIGL_POST_PENDING_GL_ERRORS:
  "bindings (HGIGL_POST_PENDING_GL_ERRORS c) = bindings c"
  by (simp add: HGIGL_POST_PENDING_GL_ERRORS_def emit_def)

lemma bindings_BindVertexBuffers_is_loop:
  "bindings (result_context (BindVertexBuffers firstBinding vbs byteOffsets c))
   = bindings (result_context (BindVertexBuffers_loop firstBinding vbs byteOffsets 0
       (TF_VERIFY (length byteOffsets = length vbs) ''byteOffsets.size() == vertexBuffers.size()''
         (TF_VERIFY (length byteOffsets = length vbs)
            ''byteOffsets.size() == vertexBuffers.size()'' c))))"
proof (cases "BindVertexBuffers_loop firstBinding vbs byteOffsets 0
       (TF_VERIFY (length byteOffsets = length vbs) ''byteOffsets.size() == vertexBuffers.size()''
         (TF_VERIFY (length byteOffsets = length vbs)
            ''byteOffsets.size() == vertexBuffers.size()'' c))")
  case (Returned c3)
  then show ?thesis
    by (simp add: BindVertexBuffers_def Let_def result_context_def
        bindings_HGIGL_POST_PENDING_GL_ERRORS)
next
  case (Faulted f c3)
  then show ?thesis
    by (simp add: BindVertexBuffers_def Let_def result_context_def)
qed

lemma bindings_BindVertexBuffers:
  "(bindings (result_context (BindVertexBuffers firstBinding vbs byteOffsets c)))
      \<lparr>vertex_buffers := v\<rparr>
   = (bindings c)\<lparr>vertex_buffers := v\<rparr>"
  by (simp only: bindings_BindVertexBuffers_is_loop bindings_BindVertexBuffers_loop bindings_TF_VERIFY)

text \<open>A slot other than those of the handles is left as it was by the loop.\<close>

lemma vertex_buffers_loop_other:
  "\<forall>k<length vbs. slot \<noteq> firstBinding + word_of_nat (i + k) \<Longrightarrow>
   vertex_buffers (bindings (result_context (BindVertexBuffers_loop firstBinding vbs byteOffsets i c))) slot
   = vertex_buffers (bindings c) slot"
proof (induction vbs arbitrary: i c)
  case Nil
  show ?case by (simp add: result_context_def)
next
  case (Cons h vbs)
  show ?case
  proof (cases h)
    case None
    then show ?thesis by (simp add: result_context_def)
  next
    case (Some buf)
    obtain c1 where c1:
      "BindVertexBuffers_loop firstBinding (Some buf # vbs) byteOffsets i c
         = BindVertexBuffers_loop firstBinding vbs byteOffsets (Suc i) c1"
      "bindings c1 = (bindings c)\<lparr>vertex_buffers := (vertex_buffers (bindings c))
           (firstBinding + word_of_nat i \<mapsto>
              (bufferId buf, if i < length byteOffsets then byteOffsets ! i else past_the_end c i,
               vertexStride (bufferDesc buf)))\<rparr>"
      using BindVertexBuffers_loop_step [of firstBinding buf vbs byteOffsets i c] by blast
    have "slot \<noteq> firstBinding + word_of_nat i"
      using Cons.prems [rule_format, of 0] by simp
    then have here: "vertex_buffers (bindings c1) slot = vertex_buffers (bindings c) slot"
      by (simp add: c1(2))
    have rest: "\<forall>k<length vbs. slot \<noteq> firstBinding + word_of_nat (Suc i + k)"
    proof (intro allI impI)
      fix k assume "k < length vbs"
      then show "slot \<noteq> firstBinding + word_of_nat (Suc i + k)"
        using Cons.prems [rule_format, of "Suc k"] by simp
    qed
    have "vertex_buffers (bindings (result_context
            (BindVertexBuffers_loop firstBinding (h # vbs) byteOffsets i c))) slot
      = vertex_buffers (bindings (result_context
            (BindVertexBuffers_loop firstBinding vbs byteOffsets (Suc i) c1))) slot"
      by (simp only: Some c1(1))
    also have "\<dots> = vertex_buffers (bindings c1) slot"
      using rest by (rule Cons.IH)
    finally show ?thesis
      by (simp only: here)
  qed
qed

text \<open>A slot of one of the buffers holds that buffer after the loop, unless the slots wrap
  around.\<close>

lemma slots_differ:
  assumes "unat (firstBinding :: uint32) + j < 2 ^ 32" "i < j"
  shows "firstBinding + word_of_nat i \<noteq> firstBinding + word_of_nat j"
proof
  assume eq: "firstBinding + word_of_nat i = firstBinding + word_of_nat j"
  from assms have "unat (firstBinding + word_of_nat i) = unat firstBinding + i"
    by (intro unat_slot) simp
  moreover from assms have "unat (firstBinding + word_of_nat j) = unat firstBinding + j"
    by (intro unat_slot) simp
  ultimately show False
    using eq assms(2) by simp
qed

lemma vertex_buffers_loop_set:
  "unat firstBinding + i + length bufs \<le> 2 ^ 32 \<Longrightarrow> j < length bufs \<Longrightarrow>
   vertex_buffers (bindings (result_context
     (BindVertexBuffers_loop firstBinding (map Some bufs) byteOffsets i c)))
     (firstBinding + word_of_nat (i + j))
   = Some (bufferId (bufs ! j),
           if i + j < length byteOffsets then byteOffsets ! (i + j) else past_the_end c (i + j),
           vertexStride (bufferDesc (bufs ! j)))"
proof (induction bufs arbitrary: i j c)
  case Nil
  then show ?case by simp
next
  case (Cons buf bufs)
  obtain c1 where c1:
    "BindVertexBuffers_loop firstBinding (Some buf # map Some bufs) byteOffsets i c
       = BindVertexBuffers_loop firstBinding (map Some bufs) byteOffsets (Suc i) c1"
    "past_the_end c1 = past_the_end c"
    "bindings c1 = (bindings c)\<lparr>vertex_buffers := (vertex_buffers (bindings c))
         (firstBinding + word_of_nat i \<mapsto>
            (bufferId buf, if i < length byteOffsets then byteOffsets ! i else past_the_end c i,
             vertexStride (bufferDesc buf)))\<rparr>"
    using BindVertexBuffers_loop_step [of firstBinding buf "map Some bufs" byteOffsets i c] by blast
  have unfold: "BindVertexBuffers_loop firstBinding (map Some (buf # bufs)) byteOffsets i c
       = BindVertexBuffers_loop firstBinding (map Some bufs) byteOffsets (Suc i) c1"
    by (simp only: list.map c1(1))
  show ?case
  proof (cases j)
    case 0
    have "\<forall>k<length (map Some bufs).
        firstBinding + word_of_nat i \<noteq> firstBinding + word_of_nat (Suc i + k)"
    proof (intro allI impI)
      fix k assume "k < length (map Some bufs)"
      with Cons.prems(1) have "unat firstBinding + (Suc i + k) < 2 ^ 32"
        by simp
      then show "firstBinding + word_of_nat i \<noteq> firstBinding + word_of_nat (Suc i + k)"
        by (rule slots_differ) simp
    qed
    then have "vertex_buffers (bindings (result_context
         (BindVertexBuffers_loop firstBinding (map Some bufs) byteOffsets (Suc i) c1)))
         (firstBinding + word_of_nat i)
       = vertex_buffers (bindings c1) (firstBinding + word_of_nat i)"
      by (rule vertex_buffers_loop_other)
    then show ?thesis
      unfolding unfold 0 by (simp add: c1(3))
  next
    case (Suc k)
    with Cons.prems have "unat firstBinding + Suc i + length bufs \<le> 2 ^ 32" "k < length bufs"
      by simp_all
    then have "vertex_buffers (bindings (result_context
         (BindVertexBuffers_loop firstBinding (map Some bufs) byteOffsets (Suc i) c1)))
         (firstBinding + word_of_nat (Suc i + k))
       = Some (bufferId (bufs ! k),
           if Suc i + k < length byteOffsets then byteOffsets ! (Suc i + k)
           else past_the_end c1 (Suc i + k),
           vertexStride (bufferDesc (bufs ! k)))"
      by (rule Cons.IH)
    then show ?thesis
      unfolding unfold Suc by (simp add: c1(2))
  qed
qed

lemma bindings_CopyTextureGpuToCpu:
  "returns (CopyTextureGpuToCpu copyOp c)
   \<and> bindings (result_context (CopyTextureGpuToCpu copyOp c)) = bindings c"
  by (simp add: CopyTextureGpuToCpu_def Let_def returns_def result_context_def gl_defs
      split: option.split)

lemma bindings_CopyBufferCpuToGpu:
  "returns (CopyBufferCpuToGpu copyOp c)
   \<and> bindings (result_context (CopyBufferCpuToGpu copyOp c)) = bindings c"
  by (simp add: CopyBufferCpuToGpu_def Let_def returns_def result_context_def gl_defs)

lemma bindings_ResolveImage:
  "returns (ResolveImage resolveOp c)
   \<and> bindings (result_context (ResolveImage resolveOp c)) = bindings c"
proof (cases "source resolveOp = None \<or> destination resolveOp = None")
  case True
  from ResolveImage_early_return [OF this, of c] show ?thesis
    by (auto simp: returns_def result_context_def)
next
  case False
  then obtain s d where "source resolveOp = Some s" "destination resolveOp = Some d" by auto
  from ResolveImage_complete [OF this, of c] show ?thesis
    by (auto simp: returns_def result_context_def)
qed

lemma bindings_DrawIndexed:
  "returns (DrawIndexed (Some indexBuf) indexCount indexBufferByteOffset vertexOffset instanceCount
      firstInstance c)
   \<and> bindings (result_context (DrawIndexed (Some indexBuf) indexCount indexBufferByteOffset
        vertexOffset instanceCount firstInstance c))
     = (bindings c)\<lparr>element_array_buffer := bufferId indexBuf\<rparr>"
  by (simp add: DrawIndexed_def Let_def returns_def result_context_def gl_defs)

text \<open>
  C1, as the code has it. \<^verbatim>\<open>PushDebugGroup\<close>, \<^verbatim>\<open>PopDebugGroup\<close>, \<^verbatim>\<open>CopyTextureGpuToCpu\<close>,
  \<^verbatim>\<open>CopyBufferCpuToGpu\<close> and \<^verbatim>\<open>ResolveImage\<close> return with every piece of the global binding
  state as it was before the invocation. \<^verbatim>\<open>DrawIndexed\<close> returns with the element-array-buffer
  binding set to its index buffer and everything else as it was. \<^verbatim>\<open>BindVertexBuffers\<close>
  changes nothing but vertex-buffer bindings, and of these only the ones at the slots
  \<^verbatim>\<open>firstBinding + i\<close> of the handles it is given: every other slot holds what it held before,
  and, when no handle is null and the slots do not wrap around, the slot \<^verbatim>\<open>firstBinding + i\<close>
  holds the \<open>i\<close>-th buffer with the offset passed for it and its declared stride.
\<close>

theorem state_transparent_ops:
  "returns (PushDebugGroup label c)
   \<and> bindings (result_context (PushDebugGroup label c)) = bindings c
   \<and> returns (PopDebugGroup c)
   \<and> bindings (result_context (PopDebugGroup c)) = bindings c
   \<and> returns (CopyTextureGpuToCpu textureOp c)
   \<and> bindings (result_context (CopyTextureGpuToCpu textureOp c)) = bindings c
   \<and> returns (CopyBufferCpuToGpu bufferOp c)
   \<and> bindings (result_context (CopyBufferCpuToGpu bufferOp c)) = bindings c
   \<and> returns (ResolveImage resolveOp c)
   \<and> bindings (result_context (ResolveImage resolveOp c)) = bindings c
   \<and> returns (DrawIndexed (Some indexBuf) indexCount indexBufferByteOffset vertexOffset
        instanceCount firstInstance c)
   \<and> bindings (result_context (DrawIndexed (Some indexBuf) indexCount indexBufferByteOffset
        vertexOffset instanceCount firstInstance c))
     = (bindings c)\<lparr>element_array_buffer := bufferId indexBuf\<rparr>
   \<and> (bindings (result_context (BindVertexBuffers firstBinding vertexBuffers byteOffsets c)))
        \<lparr>vertex_buffers := vertex_buffers (bindings c)\<rparr> = bindings c
   \<and> (\<forall>slot. (\<forall>i<length vertexBuffers. slot \<noteq> firstBinding + word_of_nat i) \<longrightarrow>
        vertex_buffers (bindings (result_context
          (BindVertexBuffers firstBinding vertexBuffers byteOffsets c))) slot
        = vertex_buffers (bindings c) slot)
   \<and> (unat firstBinding + length buffers \<le> 2 ^ 32 \<longrightarrow>
        (\<forall>i<length buffers.
           vertex_buffers (bindings (result_context
             (BindVertexBuffers firstBinding (map Some buffers) byteOffsets c)))
             (firstBinding + word_of_nat i)
           = Some (bufferId (buffers ! i),
                   if i < length byteOffsets then byteOffsets ! i else past_the_end c i,
                   vertexStride (bufferDesc (buffers ! i)))))"
proof -
  have "returns (PushDebugGroup label c)
     \<and> bindings (result_context (PushDebugGroup label c)) = bindings c"
    by (simp add: PushDebugGroup_def returns_def result_context_def gl_defs)
  moreover have "returns (PopDebugGroup c)
     \<and> bindings (result_context (PopDebugGroup c)) = bindings c"
    by (simp add: PopDebugGroup_def returns_def result_context_def gl_defs)
  moreover have "(bindings (result_context (BindVertexBuffers firstBinding vertexBuffers byteOffsets c)))
        \<lparr>vertex_buffers := vertex_buffers (bindings c)\<rparr> = bindings c"
    using bindings_BindVertexBuffers [where c = c and v = "vertex_buffers (bindings c)"]
    by simp
  moreover have "\<forall>slot. (\<forall>i<length vertexBuffers. slot \<noteq> firstBinding + word_of_nat i) \<longrightarrow>
        vertex_buffers (bindings (result_context
          (BindVertexBuffers firstBinding vertexBuffers byteOffsets c))) slot
        = vertex_buffers (bindings c) slot"
  proof (intro allI impI)
    fix slot assume "\<forall>i<length vertexBuffers. slot \<noteq> firstBinding + word_of_nat i"
    then have "\<forall>k<length vertexBuffers. slot \<noteq> firstBinding + word_of_nat (0 + k)" by simp
    from vertex_buffers_loop_other [OF this]
    show "vertex_buffers (bindings (result_context
          (BindVertexBuffers firstBinding vertexBuffers byteOffsets c))) slot
        = vertex_buffers (bindings c) slot"
      by (simp add: bindings_BindVertexBuffers_is_loop)
  qed
  moreover have "unat firstBinding + length buffers \<le> 2 ^ 32 \<longrightarrow>
        (\<forall>i<length buffers.
           vertex_buffers (bindings (result_context
             (BindVertexBuffers firstBinding (map Some buffers) byteOffsets c)))
             (firstBinding + word_of_nat i)
           = Some (bufferId (buffers ! i),
                   if i < length byteOffsets then byteOffsets ! i else past_the_end c i,
                   vertexStride (bufferDesc (buffers ! i))))"
  proof (intro allI impI)
    fix i assume "unat firstBinding + length buffers \<le> 2 ^ 32" "i < length buffers"
    then have "unat firstBinding + 0 + length buffers \<le> 2 ^ 32" "i < length buffers" by simp_all
    from vertex_buffers_loop_set [OF this, where byteOffsets = byteOffsets]
    show "vertex_buffers (bindings (result_context
             (BindVertexBuffers firstBinding (map Some buffers) byteOffsets c)))
             (firstBinding + word_of_nat i)
           = Some (bufferId (buffers ! i),
                   if i < length byteOffsets then byteOffsets ! i else past_the_end c i,
                   vertexStride (bufferDesc (buffers ! i)))"
      by (simp add: bindings_BindVertexBuffers_is_loop)
  qed
  ultimately show ?thesis
    using bindings_CopyTextureGpuToCpu [of textureOp c] bindings_CopyBufferCpuToGpu [of bufferOp c]
      bindings_ResolveImage [of resolveOp c]
      bindings_DrawIndexed [of indexBuf indexCount indexBufferByteOffset vertexOffset instanceCount firstInstance c]
    by blast
qed

theorem state_transparent_ops_witness:
  "vertex_buffers (bindings (result_context
      (BindVertexBuffers 3 [Some (vertex_buffer_example 12), Some (vertex_buffer_example 16)]
         [0, 64] initial_context))) 9
     = vertex_buffers (bindings initial_context) 9
   \<and> vertex_buffers (bindings initial_context) 9 = None
   \<and> vertex_buffers (bindings (result_context
      (BindVertexBuffers 3 [Some (vertex_buffer_example 12), Some (vertex_buffer_example 16)]
         [0, 64] initial_context))) 3 = Some (7, 0, 12)
   \<and> vertex_buffers (bindings (result_context
      (BindVertexBuffers 3 [Some (vertex_buffer_example 12), Some (vertex_buffer_example 16)]
         [0, 64] initial_context))) 4 = Some (7, 64, 16)
   \<and> bindings (result_context (ResolveImage
        (resolve_op_example (Some (texture_example 11 HgiTextureUsageBitsColorTarget))
           HgiTextureUsageBitsColorTarget) initial_context))
     = bindings initial_context"
proof -
  let ?bufs = "[vertex_buffer_example 12, vertex_buffer_example 16]"
  note t = state_transparent_ops
    [where firstBinding = 3 and vertexBuffers = "map Some ?bufs" and buffers = ?bufs
       and byteOffsets = "[0, 64]" and c = initial_context
       and resolveOp = "resolve_op_example (Some (texture_example 11 HgiTextureUsageBitsColorTarget))
           HgiTextureUsageBitsColorTarget"]
  have other: "\<forall>i<length (map Some ?bufs). (9 :: uint32) \<noteq> 3 + word_of_nat i"
    by (simp add: All_less_Suc)
  have room: "unat (3 :: uint32) + length ?bufs \<le> 2 ^ 32"
    by simp
  have i0: "(0 :: nat) < length ?bufs" and i1: "(1 :: nat) < length ?bufs"
    by simp_all
  have none: "vertex_buffers (bindings initial_context) 9 = None"
    by (simp add: initial_context_def initial_bindings_def)
  from t other have "vertex_buffers (bindings (result_context
      (BindVertexBuffers 3 (map Some ?bufs) [0, 64] initial_context))) 9
     = vertex_buffers (bindings initial_context) 9"
    by blast
  moreover from t room i0 have "vertex_buffers (bindings (result_context
      (BindVertexBuffers 3 (map Some ?bufs) [0, 64] initial_context))) (3 + word_of_nat 0)
     = Some (bufferId (?bufs ! 0),
             if 0 < length [0, 64 :: uint32] then [0, 64] ! 0 else past_the_end initial_context 0,
             vertexStride (bufferDesc (?bufs ! 0)))"
    by blast
  moreover from t room i1 have "vertex_buffers (bindings (result_context
      (BindVertexBuffers 3 (map Some ?bufs) [0, 64] initial_context))) (3 + word_of_nat 1)
     = Some (bufferId (?bufs ! 1),
             if 1 < length [0, 64 :: uint32] then [0, 64] ! 1 else past_the_end initial_context 1,
             vertexStride (bufferDesc (?bufs ! 1)))"
    by blast
  moreover from t have "bindings (result_context (ResolveImage
        (resolve_op_example (Some (texture_example 11 HgiTextureUsageBitsColorTarget))
           HgiTextureUsageBitsColorTarget) initial_context))
     = bindings initial_context"
    by blast
  ultimately show ?thesis
    using none by (simp add: vertex_buffer_example_def)
qed

text \<open>
  C1 as stated fails: \<^verbatim>\<open>DrawIndexed\<close> binds its index buffer to
  \<^verbatim>\<open>GL_ELEMENT_ARRAY_BUFFER\<close> and does not restore the binding. On a fresh context, where
  nothing is bound, the buffer 9 is still bound when the op has returned.
\<close>

theorem DrawIndexed_leaves_index_buffer_bound:
  "returns (DrawIndexed (Some index_buffer_example) 6 0 0 1 0 initial_context)
   \<and> element_array_buffer (bindings initial_context) = 0
   \<and> element_array_buffer (bindings (result_context
        (DrawIndexed (Some index_buffer_example) 6 0 0 1 0 initial_context))) = 9
   \<and> bindings (result_context (DrawIndexed (Some index_buffer_example) 6 0 0 1 0 initial_context))
       \<noteq> bindings initial_context"
proof -
  have a: "returns (DrawIndexed (Some index_buffer_example) 6 0 0 1 0 initial_context)"
    by (simp add: DrawIndexed_def Let_def returns_def)
  have b: "element_array_buffer (bindings initial_context) = 0"
    by (simp add: initial_context_def initial_bindings_def)
  have c: "element_array_buffer (bindings (result_context
        (DrawIndexed (Some index_buffer_example) 6 0 0 1 0 initial_context))) = 9"
    by (simp add: DrawIndexed_def Let_def result_context_def gl_defs index_buffer_example_def)
  from b c have "bindings (result_context (DrawIndexed (Some index_buffer_example) 6 0 0 1 0 initial_context))
       \<noteq> bindings initial_context"
    by auto
  with a b c show ?thesis by blast
qed

subsection \<open>Polling of the pending errors\<close>

lemma polls_CopyTextureGpuToCpu:
  "issues_native_call c (CopyTextureGpuToCpu copyOp c) \<Longrightarrow> polls_at_end c (CopyTextureGpuToCpu copyOp c)"
  by (cases "gpuSourceTexture copyOp")
    (auto simp: CopyTextureGpuToCpu_def Let_def issues_native_call_def polls_at_end_def issued_def
      result_context_def gl_defs trace_TF_VERIFY split: if_splits)

lemma polls_BindVertexBuffers:
  assumes "returns (BindVertexBuffers firstBinding vbs byteOffsets c)"
  shows "polls_at_end c (BindVertexBuffers firstBinding vbs byteOffsets c)"
proof -
  let ?c2 = "TF_VERIFY (length byteOffsets = length vbs)
                 ''byteOffsets.size() == vertexBuffers.size()''
             (TF_VERIFY (length byteOffsets = length vbs)
                 ''byteOffsets.size() == vertexBuffers.size()'' c)"
  obtain es where es:
    "trace (result_context (BindVertexBuffers_loop firstBinding vbs byteOffsets 0 ?c2))
     = trace ?c2 @ es"
    using BindVertexBuffers_loop_trace by blast
  show ?thesis
  proof (cases "BindVertexBuffers_loop firstBinding vbs byteOffsets 0 ?c2")
    case (Returned c3)
    with es show ?thesis
      by (simp add: BindVertexBuffers_def Let_def trace_TF_VERIFY issued_def result_context_def
          HGIGL_POST_PENDING_GL_ERRORS_def polls_at_end_def)
  next
    case (Faulted f c3)
    with assms show ?thesis
      by (simp add: BindVertexBuffers_def Let_def returns_def)
  qed
qed

lemma polls_DrawIndexed:
  "returns (DrawIndexed indexBuffer indexCount indexBufferByteOffset vertexOffset instanceCount firstInstance c)
   \<Longrightarrow> polls_at_end c (DrawIndexed indexBuffer indexCount indexBufferByteOffset vertexOffset
         instanceCount firstInstance c)"
  by (cases indexBuffer)
    (simp_all add: DrawIndexed_def Let_def returns_def polls_at_end_def issued_def result_context_def
      gl_defs trace_TF_VERIFY)

lemma polls_BindFramebufferOp:
  "\<exists>c'. BindFramebufferOp device desc c = Returned c' \<and> trace c' \<noteq> []
      \<and> last (trace c') = PostPendingGLErrors"
  by (simp add: BindFramebufferOp_def Let_def HGIGL_POST_PENDING_GL_ERRORS_def split: prod.split)

lemma no_poll_CopyBufferCpuToGpu:
  "\<not> polls_at_end c (CopyBufferCpuToGpu copyOp c)"
  by (simp add: CopyBufferCpuToGpu_def Let_def polls_at_end_def issued_def result_context_def gl_defs)

lemma native_CopyBufferCpuToGpu:
  "byteSize copyOp \<noteq> 0 \<Longrightarrow> cpuSourceBuffer copyOp \<noteq> None \<Longrightarrow> gpuDestinationBuffer copyOp \<noteq> None
   \<Longrightarrow> issues_native_call c (CopyBufferCpuToGpu copyOp c)"
  by (simp add: CopyBufferCpuToGpu_def Let_def issues_native_call_def issued_def result_context_def gl_defs)

lemma no_poll_SetViewport:
  "issues_native_call c (SetViewport vp c) \<and> \<not> polls_at_end c (SetViewport vp c)"
  by (simp add: SetViewport_def issues_native_call_def polls_at_end_def issued_def result_context_def
      gl_defs split: prod.split)

lemma no_poll_SetScissor:
  "issues_native_call c (SetScissor sc c) \<and> \<not> polls_at_end c (SetScissor sc c)"
  by (simp add: SetScissor_def issues_native_call_def polls_at_end_def issued_def result_context_def
      gl_defs split: prod.split)

lemma no_poll_DebugGroup:
  "\<not> polls_at_end c (PushDebugGroup label c) \<and> \<not> polls_at_end c (PopDebugGroup c)"
  by (simp add: PushDebugGroup_def PopDebugGroup_def polls_at_end_def issued_def result_context_def
      gl_defs)

lemma polls_ResolveImage:
  assumes "source resolveOp \<noteq> None" "destination resolveOp \<noteq> None"
  shows "polls_at_end c (ResolveImage resolveOp c)"
proof -
  from assms obtain s d where "source resolveOp = Some s" "destination resolveOp = Some d" by auto
  from ResolveImage_complete [OF this, of c] show ?thesis by auto
qed

text \<open>
  C4, as the code has it. \<^verbatim>\<open>CopyTextureGpuToCpu\<close>, \<^verbatim>\<open>BindVertexBuffers\<close>, \<^verbatim>\<open>DrawIndexed\<close> and
  \<^verbatim>\<open>BindFramebufferOp\<close> end every invocation that issues native calls and returns by polling
  the pending native errors, and so does \<^verbatim>\<open>ResolveImage\<close> when both texture handles are
  present. \<^verbatim>\<open>CopyBufferCpuToGpu\<close>, \<^verbatim>\<open>SetViewport\<close> and \<^verbatim>\<open>SetScissor\<close> issue their native calls
  and return without polling, as do \<^verbatim>\<open>PushDebugGroup\<close> and \<^verbatim>\<open>PopDebugGroup\<close>.
\<close>

theorem ops_that_poll:
  "(issues_native_call c (CopyTextureGpuToCpu textureOp c)
      \<longrightarrow> polls_at_end c (CopyTextureGpuToCpu textureOp c))
   \<and> (source resolveOp \<noteq> None \<and> destination resolveOp \<noteq> None
      \<longrightarrow> polls_at_end c (ResolveImage resolveOp c))
   \<and> (returns (BindVertexBuffers firstBinding vertexBuffers byteOffsets c)
      \<longrightarrow> polls_at_end c (BindVertexBuffers firstBinding vertexBuffers byteOffsets c))
   \<and> (returns (DrawIndexed indexBuffer indexCount indexBufferByteOffset vertexOffset instanceCount
          firstInstance c)
      \<longrightarrow> polls_at_end c (DrawIndexed indexBuffer indexCount indexBufferByteOffset vertexOffset
            instanceCount firstInstance c))
   \<and> (\<exists>c'. BindFramebufferOp device desc c = Returned c' \<and> trace c' \<noteq> []
          \<and> last (trace c') = PostPendingGLErrors)
   \<and> (byteSize bufferOp \<noteq> 0 \<and> cpuSourceBuffer bufferOp \<noteq> None \<and> gpuDestinationBuffer bufferOp \<noteq> None
      \<longrightarrow> issues_native_call c (CopyBufferCpuToGpu bufferOp c))
   \<and> \<not> polls_at_end c (CopyBufferCpuToGpu bufferOp c)
   \<and> issues_native_call c (SetViewport vp c) \<and> \<not> polls_at_end c (SetViewport vp c)
   \<and> issues_native_call c (SetScissor sc c) \<and> \<not> polls_at_end c (SetScissor sc c)
   \<and> \<not> polls_at_end c (PushDebugGroup label c) \<and> \<not> polls_at_end c (PopDebugGroup c)"
  using polls_CopyTextureGpuToCpu [of c textureOp] polls_ResolveImage [of resolveOp c]
    polls_BindVertexBuffers [of firstBinding vertexBuffers byteOffsets c]
    polls_DrawIndexed [of indexBuffer indexCount indexBufferByteOffset vertexOffset instanceCount firstInstance c]
    polls_BindFramebufferOp [of device desc c] native_CopyBufferCpuToGpu [of bufferOp c]
    no_poll_CopyBufferCpuToGpu [of c bufferOp] no_poll_SetViewport [of c vp]
    no_poll_SetScissor [of c sc] no_poll_DebugGroup [of c label]
  by blast

text \<open>
  C4 as stated fails: all that \<^verbatim>\<open>SetViewport\<close> leaves in the trace is its call of
  \<^verbatim>\<open>glViewport\<close>; the pending errors are not polled.
\<close>

theorem SetViewport_does_not_poll:
  "issued initial_context (SetViewport (0, 0, 640, 480) initial_context)
     = [Native (GlViewport 0 0 640 480)]
   \<and> issues_native_call initial_context (SetViewport (0, 0, 640, 480) initial_context)
   \<and> \<not> polls_at_end initial_context (SetViewport (0, 0, 640, 480) initial_context)"
  by (simp add: SetViewport_def issues_native_call_def polls_at_end_def issued_def result_context_def
      gl_defs)

lemmas example_defs =
  initial_context_def initial_bindings_def vertex_buffer_example_def index_buffer_example_def
  texture_example_def attachment_example_def encoder_desc_example_def device_example_def
  resolve_op_example_def texture_copy_example_def buffer_copy_example_def task_example_def
  depth_only_desc_example_def

theorem ops_that_poll_witness:
  "polls_at_end initial_context (CopyTextureGpuToCpu (texture_copy_example 0 1 64) initial_context)
   \<and> polls_at_end initial_context
        (ResolveImage (resolve_op_example (Some (texture_example 11 HgiTextureUsageBitsColorTarget))
           HgiTextureUsageBitsColorTarget) initial_context)
   \<and> polls_at_end initial_context
        (BindVertexBuffers 0 [Some (vertex_buffer_example 12)] [0] initial_context)
   \<and> polls_at_end initial_context (DrawIndexed (Some index_buffer_example) 6 0 0 1 0 initial_context)
   \<and> issues_native_call initial_context (CopyBufferCpuToGpu (buffer_copy_example 16) initial_context)
   \<and> \<not> polls_at_end initial_context (CopyBufferCpuToGpu (buffer_copy_example 16) initial_context)"
proof -
  have a: "issues_native_call initial_context
      (CopyTextureGpuToCpu (texture_copy_example 0 1 64) initial_context)"
    by (simp add: CopyTextureGpuToCpu_def Let_def issues_native_call_def issued_def
        result_context_def gl_defs texture_copy_example_def texture_example_def)
  have b: "source (resolve_op_example (Some (texture_example 11 HgiTextureUsageBitsColorTarget))
           HgiTextureUsageBitsColorTarget) \<noteq> None
     \<and> destination (resolve_op_example (Some (texture_example 11 HgiTextureUsageBitsColorTarget))
           HgiTextureUsageBitsColorTarget) \<noteq> None"
    by (simp add: resolve_op_example_def)
  have c: "returns (BindVertexBuffers 0 [Some (vertex_buffer_example 12)] [0] initial_context)"
    by (simp add: BindVertexBuffers_def Let_def returns_def vector_read_def)
  have d: "returns (DrawIndexed (Some index_buffer_example) 6 0 0 1 0 initial_context)"
    by (simp add: DrawIndexed_def Let_def returns_def)
  have e: "byteSize (buffer_copy_example 16) \<noteq> 0 \<and> cpuSourceBuffer (buffer_copy_example 16) \<noteq> None
     \<and> gpuDestinationBuffer (buffer_copy_example 16) \<noteq> None"
    by (simp add: buffer_copy_example_def)
  show ?thesis
    using a b c d e
      ops_that_poll [where c = initial_context and textureOp = "texture_copy_example 0 1 64"
        and resolveOp = "resolve_op_example (Some (texture_example 11 HgiTextureUsageBitsColorTarget))
           HgiTextureUsageBitsColorTarget"
        and firstBinding = 0 and vertexBuffers = "[Some (vertex_buffer_example 12)]"
        and byteOffsets = "[0]" and indexBuffer = "Some index_buffer_example" and indexCount = 6
        and indexBufferByteOffset = 0 and vertexOffset = 0 and instanceCount = 1
        and firstInstance = 0 and bufferOp = "buffer_copy_example 16"]
    by blast
qed

subsection \<open>Framebuffers left behind by \<^verbatim>\<open>ResolveImage\<close>\<close>

text \<open>
  C2 at an absent source texture: \<^verbatim>\<open>ResolveImage\<close> creates its two framebuffers, reports the
  coding error and returns. No framebuffer is deleted: the two objects, 1 and 2, are alive
  after the op on a context that had none.
\<close>

theorem ResolveImage_early_return_leaks:
  "framebuffers initial_context = []
   \<and> issued initial_context
       (ResolveImage (resolve_op_example None HgiTextureUsageBitsColorTarget) initial_context)
     = [Native (GlCreateFramebuffers 1), Native (GlCreateFramebuffers 2),
        CodingError ''No textures provided for resolve'']
   \<and> framebuffers (result_context
       (ResolveImage (resolve_op_example None HgiTextureUsageBitsColorTarget) initial_context))
     = [2, 1]"
  by (simp add: ResolveImage_def Let_def glCreateFramebuffers_def unused_framebuffer_name_def
      issued_def result_context_def example_defs)

subsection \<open>The checks of \<^verbatim>\<open>CopyTextureGpuToCpu\<close>\<close>

text \<open>With a destination size of 0 the op issues no native call, and neither does it when the
  layer range exceeds the layer count of the texture and the sum of first layer and number
  of layers fits 32 bits.\<close>

lemma CopyTextureGpuToCpu_refuses:
  "(destinationBufferByteSize copyOp = 0
      \<longrightarrow> native_calls (issued c (CopyTextureGpuToCpu copyOp c)) = [])
   \<and> (gpuSourceTexture copyOp = Some srcTexture
       \<and> unat (startLayer copyOp) + unat (numLayers copyOp) < 2 ^ 32
       \<and> layerCount (textureDesc srcTexture) < unat (startLayer copyOp) + unat (numLayers copyOp)
      \<longrightarrow> native_calls (issued c (CopyTextureGpuToCpu copyOp c)) = [])"
  by (cases "gpuSourceTexture copyOp")
    (auto simp: CopyTextureGpuToCpu_def Let_def issued_def result_context_def trace_TF_VERIFY
      unat_word_ariths)

text \<open>
  C3 at \<^verbatim>\<open>startLayer = 0xFFFFFFFF\<close> and \<^verbatim>\<open>numLayers = 2\<close> on a texture of one layer: the
  sum exceeds the layer count, but \<^verbatim>\<open>layerCnt\<close> is computed in \<^verbatim>\<open>uint32_t\<close> and wraps to 1,
  the verification passes, and the barrier and the read-back are issued.
\<close>

theorem CopyTextureGpuToCpu_layer_sum_wraps:
  "layerCount (textureDesc (texture_example 11 HgiTextureUsageBitsColorTarget))
     < unat (0xFFFFFFFF :: uint32) + unat (2 :: uint32)
   \<and> issued initial_context
       (CopyTextureGpuToCpu (texture_copy_example 0xFFFFFFFF 2 64) initial_context)
     = [Native (GlMemoryBarrier GL_ALL_BARRIER_BITS),
        Native (GlGetTextureSubImage 11 0 (0, 0, 0) (4, 4, 1) (GetFormat HgiFormatFloat32) 64
          (Some 4096)),
        PostPendingGLErrors]"
  by (simp add: CopyTextureGpuToCpu_def Let_def issued_def result_context_def gl_defs example_defs)

subsection \<open>State restored by the colour-correction pass\<close>

text \<open>The pass returns with the depth write mask, the depth function, blending, alpha to
  coverage and the viewport as they were. The stencil write mask comes back as 0 if it was 0
  and as 1 otherwise.\<close>

lemma ApplyColorCorrection_restores:
  assumes "shaderProgram task = Some programId"
  shows "returns (ApplyColorCorrection useOCIO task c)"
    and "depth_writemask (bindings (result_context (ApplyColorCorrection useOCIO task c)))
         = depth_writemask (bindings c)"
    and "depth_func (bindings (result_context (ApplyColorCorrection useOCIO task c)))
         = depth_func (bindings c)"
    and "blend (bindings (result_context (ApplyColorCorrection useOCIO task c)))
         = blend (bindings c)"
    and "sample_alpha_to_coverage (bindings (result_context (ApplyColorCorrection useOCIO task c)))
         = sample_alpha_to_coverage (bindings c)"
    and "viewport (bindings (result_context (ApplyColorCorrection useOCIO task c)))
         = viewport (bindings c)"
    and "stencil_writemask (bindings (result_context (ApplyColorCorrection useOCIO task c)))
         = (if stencil_writemask (bindings c) = 0 then 0 else 1)"
  using assms
  by (simp_all add: ApplyColorCorrection_def Let_def returns_def result_context_def gl_defs
      set_cap_def is_enabled_def GLuint_of_GLboolean_def uint_0_iff split: prod.split)

text \<open>
  C8 at the stencil write mask of a fresh context, \<^verbatim>\<open>0xFFFFFFFF\<close>: the pass reads the mask
  with \<^verbatim>\<open>glGetBooleanv\<close> into a \<^verbatim>\<open>GLboolean\<close> and restores it with
  \<^verbatim>\<open>glStencilMask(GL_TRUE)\<close>, so the mask is 1 afterwards.
\<close>

theorem ApplyColorCorrection_stencil_mask:
  "returns (ApplyColorCorrection False task_example initial_context)
   \<and> stencil_writemask (bindings initial_context) = 0xFFFFFFFF
   \<and> stencil_writemask (bindings (result_context
        (ApplyColorCorrection False task_example initial_context))) = 1"
  by (simp add: ApplyColorCorrection_def Let_def returns_def result_context_def gl_defs
      set_cap_def is_enabled_def GLuint_of_GLboolean_def uint_0_iff example_defs)

subsection \<open>Depth-only render passes\<close>






end
